theory Spec2Isabelle
  imports Complex_Main "HOL-Library.Sublist"
begin

section \<open>Common Python values\<close>

text \<open>
  A Python exception is carried as a value holding its message (what \<open>str(e)\<close> prints).
  A call that may raise returns \<open>py_exception + 'a\<close>, with \<open>Inl\<close> for the raise.
  Python floats (distances, thresholds, box coordinates) are read as real numbers: rounding
  and NaN are outside this development.
\<close>

datatype py_exception = Exception string

text \<open>\<open>str(n)\<close> of a non-negative Python int, and of any Python int.\<close>

definition digit_char :: "nat \<Rightarrow> char" where
  "digit_char d = ''0123456789'' ! d"

fun str_nat :: "nat \<Rightarrow> string" where
  "str_nat n =
     (if n < 10 then [digit_char n]
      else str_nat (n div 10) @ [digit_char (n mod 10)])"

declare str_nat.simps [simp del]

definition str_int :: "int \<Rightarrow> string" where
  "str_int i = (if i < 0 then CHR ''-'' # str_nat (nat (- i)) else str_nat (nat i))"

section \<open>Face\_Recognition\_System.py: the pairwise comparator\<close>

text \<open>
  \<open>load_image\<close>: \<open>pil_open\<close> stands for \<open>Image.open(path).convert('RGB').resize((160, 160))\<close>
  read as the array of its channel values (in the order left by \<open>permute(2, 0, 1)\<close>);
  it raises when the file cannot be opened or decoded. The two arithmetic lines of the source
  follow.
\<close>

definition load_image :: "(string \<Rightarrow> py_exception + real list) \<Rightarrow> string \<Rightarrow> py_exception + real list" where
  "load_image pil_open image_path =
     (case pil_open image_path of
        Inl e \<Rightarrow> Inl e
      | Inr img_array \<Rightarrow>
          (let img_tensor = map (\<lambda>x. x / 255) img_array;
               img_tensor = map (\<lambda>x. (x - 0.5) / 0.5) img_tensor
           in Inr img_tensor))"

text \<open>\<open>torch.norm(emb1 - emb2, p=2)\<close> on two embeddings of the network's fixed length.\<close>

definition torch_norm_diff :: "real list \<Rightarrow> real list \<Rightarrow> real" where
  "torch_norm_diff emb1 emb2 = sqrt (sum_list (map (\<lambda>(x, y). (x - y)\<^sup>2) (zip emb1 emb2)))"

text \<open>
  \<open>compare_faces\<close>: both images are loaded, then both are embedded by the network
  \<open>model\<close> (a parameter: the pretrained InceptionResnetV1 in eval mode, which may raise),
  in the source's order, so the first raise is the one that propagates.
\<close>

definition compare_faces ::
  "(string \<Rightarrow> py_exception + real list) \<Rightarrow> (real list \<Rightarrow> py_exception + real list) \<Rightarrow>
   string \<Rightarrow> string \<Rightarrow> py_exception + real" where
  "compare_faces pil_open model img1_path img2_path =
     (case load_image pil_open img1_path of
        Inl e \<Rightarrow> Inl e
      | Inr img1 \<Rightarrow>
     (case load_image pil_open img2_path of
        Inl e \<Rightarrow> Inl e
      | Inr img2 \<Rightarrow>
     (case model img1 of
        Inl e \<Rightarrow> Inl e
      | Inr emb1 \<Rightarrow>
     (case model img2 of
        Inl e \<Rightarrow> Inl e
      | Inr emb2 \<Rightarrow> Inr (torch_norm_diff emb1 emb2)))))"

text \<open>
  \<open>compare_all_pairs\<close>. A result is the tuple \<open>(path_i, path_j, d, same)\<close>. The method
  calls \<open>self.compare_faces\<close>; the comparator is the parameter \<open>cmp\<close>, so that the system's
  own \<open>compare_faces\<close> and a mocked one are both instances. The two \<open>for\<close> loops over
  \<open>range\<close> are recursions over the index lists; a raise inside leaves both loops.
\<close>

type_synonym comparison = "string \<times> string \<times> real \<times> bool"

fun pairs_inner ::
  "(string \<Rightarrow> string \<Rightarrow> py_exception + real) \<Rightarrow> string list \<Rightarrow> real \<Rightarrow> nat \<Rightarrow> nat list \<Rightarrow>
   comparison list \<Rightarrow> py_exception + comparison list" where
  "pairs_inner cmp face_images threshold i [] results = Inr results"
| "pairs_inner cmp face_images threshold i (j # js) results =
     (case cmp (face_images ! i) (face_images ! j) of
        Inl e \<Rightarrow> Inl e
      | Inr d \<Rightarrow>
          (let same = d < threshold
           in pairs_inner cmp face_images threshold i js
                (results @ [(face_images ! i, face_images ! j, d, same)])))"

fun pairs_outer ::
  "(string \<Rightarrow> string \<Rightarrow> py_exception + real) \<Rightarrow> string list \<Rightarrow> real \<Rightarrow> nat list \<Rightarrow>
   comparison list \<Rightarrow> py_exception + comparison list" where
  "pairs_outer cmp face_images threshold [] results = Inr results"
| "pairs_outer cmp face_images threshold (i # is) results =
     (case pairs_inner cmp face_images threshold i [i + 1 ..< length face_images] results of
        Inl e \<Rightarrow> Inl e
      | Inr results' \<Rightarrow> pairs_outer cmp face_images threshold is results')"

definition compare_all_pairs ::
  "(string \<Rightarrow> string \<Rightarrow> py_exception + real) \<Rightarrow> string list \<Rightarrow> real \<Rightarrow>
   py_exception + comparison list" where
  "compare_all_pairs cmp face_images threshold =
     (if length face_images < 2 then Inr []
      else pairs_outer cmp face_images threshold [0 ..< length face_images] [])"

text \<open>The index pairs \<open>(i, j)\<close> in the order the two loops visit them.\<close>

definition index_pairs :: "nat \<Rightarrow> (nat \<times> nat) list" where
  "index_pairs n = concat (map (\<lambda>i. map (Pair i) [i + 1 ..< n]) [0 ..< n])"

text \<open>The result the loops append for the index pair \<open>(i, j)\<close> when the comparator returns.\<close>

definition pair_entry ::
  "(string \<Rightarrow> string \<Rightarrow> py_exception + real) \<Rightarrow> string list \<Rightarrow> real \<Rightarrow> nat \<times> nat \<Rightarrow> comparison" where
  "pair_entry cmp face_images threshold ij =
     (let a = face_images ! fst ij; b = face_images ! snd ij; d = projr (cmp a b)
      in (a, b, d, d < threshold))"

text \<open>The comparator returns a distance on every pair the loops visit.\<close>

definition cmp_returns :: "(string \<Rightarrow> string \<Rightarrow> py_exception + real) \<Rightarrow> string list \<Rightarrow> bool" where
  "cmp_returns cmp face_images =
     list_all (\<lambda>(i, j). \<not> isl (cmp (face_images ! i) (face_images ! j)))
       (index_pairs (length face_images))"

text \<open>
  A mocked comparator for three crops, with the distances 0.5, 1.5 and 2.0; it raises on any
  other pair.
\<close>

definition mock_cmp :: "string \<Rightarrow> string \<Rightarrow> py_exception + real" where
  "mock_cmp a b =
     (if (a, b) = (''pairs/1.jpg'', ''pairs/2.jpg'') then Inr 0.5
      else if (a, b) = (''pairs/1.jpg'', ''pairs/3.jpg'') then Inr 1.5
      else if (a, b) = (''pairs/2.jpg'', ''pairs/3.jpg'') then Inr 2.0
      else Inl (Exception ''unexpected pair''))"

text \<open>An entry records the comparator's distance and the strict threshold test on it.\<close>

definition threshold_decision :: "(string \<Rightarrow> string \<Rightarrow> py_exception + real) \<Rightarrow> real \<Rightarrow> comparison \<Rightarrow> bool" where
  "threshold_decision cmp threshold r =
     (case r of (a, b, d, same) \<Rightarrow> cmp a b = Inr d \<and> same = (d < threshold))"

text \<open>
  Mocked externals: two decodable crops of two channel values each, every other path fails
  to open; the mocked network doubles its input.
\<close>

definition mock_pil_open :: "string \<Rightarrow> py_exception + real list" where
  "mock_pil_open p =
     (if p = ''pairs/1.jpg'' then Inr [255, 0]
      else if p = ''pairs/2.jpg'' then Inr [0, 0]
      else Inl (Exception ''cannot identify image file''))"

definition mock_model :: "real list \<Rightarrow> py_exception + real list" where
  "mock_model t = Inr (map (\<lambda>x. 2 * x) t)"

text \<open>A path whose image loads and whose tensor the network embeds without raising.\<close>

definition embeds :: "(string \<Rightarrow> py_exception + real list) \<Rightarrow> (real list \<Rightarrow> py_exception + real list) \<Rightarrow> string \<Rightarrow> bool" where
  "embeds pil_open model p =
     (case load_image pil_open p of Inl e \<Rightarrow> False | Inr img \<Rightarrow> \<not> isl (model img))"

section \<open>Face\_Cropping.py: the extraction loop\<close>

subsection \<open>Python and \<open>os.path\<close> helpers\<close>

text \<open>\<open>str.lower\<close> on ASCII letters, \<open>str.endswith\<close>, and \<open>os.path.join\<close> of two parts (POSIX).\<close>

definition lower_char :: "char \<Rightarrow> char" where
  "lower_char c =
     (case map_of (zip ''ABCDEFGHIJKLMNOPQRSTUVWXYZ'' ''abcdefghijklmnopqrstuvwxyz'') c of
        None \<Rightarrow> c
      | Some l \<Rightarrow> l)"

definition py_lower :: "string \<Rightarrow> string" where
  "py_lower s = map lower_char s"

definition endswith :: "string \<Rightarrow> string \<Rightarrow> bool" where
  "endswith s suf = (length suf \<le> length s \<and> drop (length s - length suf) s = suf)"

definition os_path_join :: "string \<Rightarrow> string \<Rightarrow> string" where
  "os_path_join a b =
     (if b \<noteq> [] \<and> hd b = CHR ''/'' then b
      else if a = [] \<or> last a = CHR ''/'' then a @ b
      else a @ ''/'' @ b)"

text \<open>
  \<open>max\<close> of a list (raises on the empty list), \<open>list.index\<close> (the first position of a value,
  raises when absent) and indexing the stacked face tensor with a non-negative index (out of
  range it raises torch's IndexError).
\<close>

definition py_max :: "real list \<Rightarrow> py_exception + real" where
  "py_max xs =
     (case xs of
        [] \<Rightarrow> Inl (Exception ''max() arg is an empty sequence'')
      | x # rest \<Rightarrow> Inr (fold max rest x))"

fun py_index :: "real list \<Rightarrow> real \<Rightarrow> py_exception + nat" where
  "py_index [] v = Inl (Exception ''value is not in list'')"
| "py_index (x # xs) v =
     (if x = v then Inr 0
      else (case py_index xs v of Inl e \<Rightarrow> Inl e | Inr k \<Rightarrow> Inr (Suc k)))"

definition py_getitem :: "'a list \<Rightarrow> nat \<Rightarrow> py_exception + 'a" where
  "py_getitem xs i =
     (if i < length xs then Inr (xs ! i)
      else Inl (Exception (''index '' @ str_nat i @ '' is out of bounds for dimension 0 with size '' @
                           str_nat (length xs))))"

subsection \<open>The detector and the image library\<close>

text \<open>
  What the script calls outside the repository's own logic, as parameters:
  \<open>image_open\<close> is \<open>Image.open(path).convert("RGB")\<close>; \<open>mtcnn_faces\<close> is the first component of
  \<open>mtcnn(img, return_prob=True)\<close> (\<open>None\<close> when nothing is found, else the face tensors);
  \<open>mtcnn_detect\<close> is the first component of \<open>mtcnn.detect(img)\<close>; \<open>to_image\<close> is the pixel
  conversion of lines 61 to 64; \<open>image_save\<close> is \<open>face_img.save(path)\<close>, returning the exception
  it raises, if any; \<open>stdout_write\<close> is \<open>print\<close> of a line, returning the exception it raises, if
  any (a \<open>UnicodeEncodeError\<close> when stdout cannot encode the line). A box is
  \<open>(x1, y1, x2, y2)\<close>.
\<close>

type_synonym box = "real \<times> real \<times> real \<times> real"

record ('img, 'face, 'pic) cropper =
  image_open :: "string \<Rightarrow> py_exception + 'img"
  mtcnn_faces :: "'img \<Rightarrow> py_exception + 'face list option"
  mtcnn_detect :: "'img \<Rightarrow> py_exception + box list option"
  to_image :: "'face \<Rightarrow> 'pic"
  image_save :: "string \<Rightarrow> 'pic \<Rightarrow> py_exception option"
  stdout_write :: "string \<Rightarrow> py_exception option"

text \<open>
  The script's state: the counter, the crops saved so far (path and picture, in order), the
  lines printed, and the exception that ended the script, if one was raised outside the
  \<open>try\<close>.
\<close>

record 'pic crop_state =
  face_counter :: nat
  written :: "(string \<times> 'pic) list"
  printed :: "string list"
  uncaught :: "py_exception option"

definition box_area :: "box \<Rightarrow> real" where
  "box_area b = (case b of (x1, y1, x2, y2) \<Rightarrow> (x2 - x1) * (y2 - y1))"

text \<open>\<open>print(s)\<close>: the line is printed, or \<open>print\<close> raises and nothing is printed.\<close>

definition print_line ::
  "('img, 'face, 'pic) cropper \<Rightarrow> string \<Rightarrow> 'pic crop_state \<Rightarrow> py_exception + 'pic crop_state" where
  "print_line env s st =
     (case stdout_write env s of
        Some e \<Rightarrow> Inl e
      | None \<Rightarrow> Inr (st\<lparr>printed := printed st @ [s]\<rparr>))"

text \<open>
  The body of the \<open>try\<close> (lines 46 to 72): \<open>Inl\<close> is an exception leaving it, also one raised
  by a \<open>print\<close> inside it.
\<close>

definition try_body ::
  "('img, 'face, 'pic) cropper \<Rightarrow> string \<Rightarrow> string \<Rightarrow> 'pic crop_state \<Rightarrow>
   py_exception + 'pic crop_state" where
  "try_body env output_dir img_path st =
     (case image_open env img_path of
        Inl e \<Rightarrow> Inl e
      | Inr img \<Rightarrow>
     (case mtcnn_faces env img of
        Inl e \<Rightarrow> Inl e
      | Inr faces \<Rightarrow>
          if faces \<noteq> None \<and> length (the faces) > 0 then
            (case mtcnn_detect env img of
               Inl e \<Rightarrow> Inl e
             | Inr boxes \<Rightarrow>
                 if boxes \<noteq> None then
                   (let areas = map box_area (the boxes) in
                    case py_max areas of
                      Inl e \<Rightarrow> Inl e
                    | Inr m \<Rightarrow>
                   (case py_index areas m of
                      Inl e \<Rightarrow> Inl e
                    | Inr largest_idx \<Rightarrow>
                   (case py_getitem (the faces) largest_idx of
                      Inl e \<Rightarrow> Inl e
                    | Inr face \<Rightarrow>
                        (let face_img = to_image env face;
                             save_file = os_path_join output_dir (str_nat (face_counter st) @ ''.jpg'')
                         in case image_save env save_file face_img of
                              Some e \<Rightarrow> Inl e
                            | None \<Rightarrow>
                                Inr (st\<lparr>written := written st @ [(save_file, face_img)],
                                        face_counter := face_counter st + 1\<rparr>)))))
                 else print_line env ('' No valid bounding box in '' @ img_path) st)
          else print_line env ('' No face detected in '' @ img_path) st))"

text \<open>
  One iteration of the inner loop: the extension test, the \<open>try\<close> and its handler. The
  handler's \<open>print\<close> (line 75) is under no \<open>try\<close>: when it raises, the exception is
  uncaught and ends the script.
\<close>

definition is_image_name :: "string \<Rightarrow> bool" where
  "is_image_name file =
     (endswith (py_lower file) ''.png'' \<or> endswith (py_lower file) ''.jpg'' \<or>
      endswith (py_lower file) ''.jpeg'')"

definition process_file ::
  "('img, 'face, 'pic) cropper \<Rightarrow> string \<Rightarrow> string \<Rightarrow> string \<Rightarrow> 'pic crop_state \<Rightarrow> 'pic crop_state" where
  "process_file env output_dir root_dir file st =
     (if \<not> is_image_name file then st
      else
        (let img_path = os_path_join root_dir file in
         case try_body env output_dir img_path st of
           Inr st' \<Rightarrow> st'
         | Inl (Exception e) \<Rightarrow>
             (case print_line env ('' Could not process '' @ img_path @ '': '' @ e) st of
                Inr st' \<Rightarrow> st'
              | Inl ex \<Rightarrow> st\<lparr>uncaught := Some ex\<rparr>)))"

text \<open>
  The two loops over \<open>os.walk(input_dir)\<close>, which is given as the list of its
  \<open>(root, dirs, files)\<close> triples, and the script from its initial state. An iteration runs
  only while no uncaught exception has ended the script.
\<close>

fun files_loop ::
  "('img, 'face, 'pic) cropper \<Rightarrow> string \<Rightarrow> string \<Rightarrow> string list \<Rightarrow> 'pic crop_state \<Rightarrow> 'pic crop_state" where
  "files_loop env output_dir root_dir [] st = st"
| "files_loop env output_dir root_dir (file # files) st =
     (if uncaught st \<noteq> None then st
      else files_loop env output_dir root_dir files (process_file env output_dir root_dir file st))"

fun walk_loop ::
  "('img, 'face, 'pic) cropper \<Rightarrow> string \<Rightarrow> (string \<times> string list \<times> string list) list \<Rightarrow>
   'pic crop_state \<Rightarrow> 'pic crop_state" where
  "walk_loop env output_dir [] st = st"
| "walk_loop env output_dir ((root_dir, dirs, files) # walk) st =
     (if uncaught st \<noteq> None then st
      else walk_loop env output_dir walk (files_loop env output_dir root_dir files st))"

definition face_cropping ::
  "('img, 'face, 'pic) cropper \<Rightarrow> (string \<times> string list \<times> string list) list \<Rightarrow> string \<Rightarrow> 'pic crop_state" where
  "face_cropping env walk output_dir =
     walk_loop env output_dir walk
       \<lparr>face_counter = 1, written = [], printed = [], uncaught = None\<rparr>"

text \<open>The path of the crop numbered \<open>n\<close>, as line 66 builds it.\<close>

definition crop_name :: "string \<Rightarrow> nat \<Rightarrow> string" where
  "crop_name output_dir n = os_path_join output_dir (str_nat n @ ''.jpg'')"

text \<open>
  A mocked detector over images named by their paths and faces named by numbers: two files
  that do not decode (the name of the second holds the character 0xE9), one on which the
  face extraction raises, one on which the box detection raises, one without a face, one
  with three faces (areas 100, 600, 600) and any other file with one face. The mocked stdout
  cannot encode the character 0xE9.
\<close>

definition mock_cropper :: "(string, nat, nat) cropper" where
  "mock_cropper =
     \<lparr>image_open = (\<lambda>p. if p = ''RawImages/bad.jpg'' \<or> p = ''RawImages/caf'' @ [CHR 0xE9] @ ''.jpg''
                         then Inl (Exception ''cannot identify image file'')
                         else Inr p),
      mtcnn_faces = (\<lambda>img. if img = ''RawImages/empty.png'' then Inr None
                           else if img = ''RawImages/huge.jpg'' then Inl (Exception ''out of memory'')
                           else if img = ''RawImages/group.jpg'' then Inr (Some [10, 11, 12])
                           else Inr (Some [20])),
      mtcnn_detect = (\<lambda>img. if img = ''RawImages/group.jpg''
                            then Inr (Some [(0, 0, 10, 10), (0, 0, 30, 20), (5, 5, 25, 35)])
                            else if img = ''RawImages/odd.jpg'' then Inl (Exception ''invalid box'')
                            else Inr (Some [(0, 0, 1, 1)])),
      to_image = (\<lambda>face. face),
      image_save = (\<lambda>p pic. None),
      stdout_write = (\<lambda>s. if CHR 0xE9 \<in> set s
                          then Some (Exception ''charmap codec cannot encode character'')
                          else None)\<rparr>"

text \<open>The saved crops are numbered 1, 2, ... up to the counter, in order.\<close>

definition numbered :: "string \<Rightarrow> 'pic crop_state \<Rightarrow> bool" where
  "numbered output_dir st =
     (1 \<le> face_counter st \<and>
      map fst (written st) = map (crop_name output_dir) [1 ..< face_counter st])"

text \<open>A walk of one directory with five files, two of which yield a crop.\<close>

definition mock_walk :: "(string \<times> string list \<times> string list) list" where
  "mock_walk =
     [(''RawImages'', [], [''group.jpg'', ''notes.txt'', ''bad.jpg'', ''empty.png'', ''solo.JPG''])]"

section \<open>Face\_Recognition\_System.py: collecting the crops and reporting\<close>

text \<open>
  The scan of \<open>crop_faces_from_directory\<close> (lines 102 to 113). \<open>exists\<close> tells which paths
  exist when the scan runs, and \<open>path_div\<close> is pathlib's \<open>output_path / name\<close> rendered by
  \<open>str\<close>. The \<open>while True\<close> loop ends at the first missing number; \<open>None\<close> stands for a scan
  that never ends.
\<close>

partial_function (option) saved_faces_loop ::
  "(string \<Rightarrow> bool) \<Rightarrow> (string \<Rightarrow> string \<Rightarrow> string) \<Rightarrow> string \<Rightarrow> nat \<Rightarrow> string list \<Rightarrow>
   string list option" where
  "saved_faces_loop exists path_div output_path i saved_faces =
     (let img = path_div output_path (str_nat i @ ''.jpg'')
      in if exists img then saved_faces_loop exists path_div output_path (i + 1) (saved_faces @ [img])
         else Some saved_faces)"

text \<open>
  \<open>crop_faces_from_directory\<close>. \<open>run_cropping\<close> stands for lines 73 to 100: the output
  directory is created and cleared of image files, Face\_Cropping.py runs as a child process,
  and the method sleeps; it gives the child's return code, its stderr, and which paths exist
  afterwards. A non-zero return code returns the empty list before any scan.
\<close>

declare saved_faces_loop.simps [code]

definition crop_faces_from_directory ::
  "(string \<Rightarrow> string \<Rightarrow> int \<times> string \<times> (string \<Rightarrow> bool)) \<Rightarrow> (string \<Rightarrow> string \<Rightarrow> string) \<Rightarrow>
   string \<Rightarrow> string \<Rightarrow> string list option" where
  "crop_faces_from_directory run_cropping path_div input_dir output_dir =
     (case run_cropping input_dir output_dir of
        (returncode, stderr, exists) \<Rightarrow>
          if returncode \<noteq> 0 then Some []
          else saved_faces_loop exists path_div output_dir 1 [])"

text \<open>The path the scan tests for number \<open>i\<close>.\<close>

definition numbered_crop :: "(string \<Rightarrow> string \<Rightarrow> string) \<Rightarrow> string \<Rightarrow> nat \<Rightarrow> string" where
  "numbered_crop path_div output_dir i = path_div output_dir (str_nat i @ ''.jpg'')"

text \<open>
  The report of \<open>main\<close> (lines 197 to 216). \<open>path_name\<close> is \<open>Path(p).name\<close> and \<open>fmt4\<close>
  is the float format \<open>{dist:.4f}\<close>. The loop carries the text written so far and
  \<open>same_count\<close>; the result is the content of the results file.
\<close>

definition report_line :: "(string \<Rightarrow> string) \<Rightarrow> (real \<Rightarrow> string) \<Rightarrow> comparison \<Rightarrow> string" where
  "report_line path_name fmt4 r =
     (case r of (img1, img2, distance, same) \<Rightarrow>
        path_name img1 @ '' vs '' @ path_name img2 @ '' -> '' @
        fmt4 distance @ '' ('' @ (if same then ''SAME'' else ''DIFFERENT'') @ '')\<newline>'')"

fun results_loop ::
  "(string \<Rightarrow> string) \<Rightarrow> (real \<Rightarrow> string) \<Rightarrow> comparison list \<Rightarrow> string \<times> int \<Rightarrow> string \<times> int" where
  "results_loop path_name fmt4 [] (f, same_count) = (f, same_count)"
| "results_loop path_name fmt4 ((img1, img2, distance, same) # results) (f, same_count) =
     results_loop path_name fmt4 results
       (f @ report_line path_name fmt4 (img1, img2, distance, same),
        if same then same_count + 1 else same_count)"

definition write_results :: "(string \<Rightarrow> string) \<Rightarrow> (real \<Rightarrow> string) \<Rightarrow> comparison list \<Rightarrow> string" where
  "write_results path_name fmt4 results =
     (let same_count = 0;
          f = ''=== Face Recognition Results ===\<newline>\<newline>'';
          (f, same_count) = results_loop path_name fmt4 results (f, same_count);
          f = f @ ''\<newline>=== Summary ===\<newline>'';
          f = f @ ''Total comparisons: '' @ str_int (int (length results)) @ ''\<newline>'';
          f = f @ ''Same person: '' @ str_int same_count @ ''\<newline>'';
          f = f @ ''Different persons: '' @ str_int (int (length results) - same_count) @ ''\<newline>''
      in f)"

text \<open>
  \<open>main\<close> after argument parsing: what it ends with. An exception of the comparator is not
  caught (\<open>Inl\<close>); \<open>None\<close> is a crop scan that never ends.
\<close>

datatype main_result = NoFacesDetected | NoComparisonsMade | ResultsSaved string

definition main ::
  "(string \<Rightarrow> string \<Rightarrow> int \<times> string \<times> (string \<Rightarrow> bool)) \<Rightarrow> (string \<Rightarrow> string \<Rightarrow> string) \<Rightarrow>
   (string \<Rightarrow> string \<Rightarrow> py_exception + real) \<Rightarrow> (string \<Rightarrow> string) \<Rightarrow> (real \<Rightarrow> string) \<Rightarrow>
   string \<Rightarrow> string \<Rightarrow> real \<Rightarrow> (py_exception + main_result) option" where
  "main run_cropping path_div cmp path_name fmt4 input_dir output_dir threshold =
     (case crop_faces_from_directory run_cropping path_div input_dir output_dir of
        None \<Rightarrow> None
      | Some faces \<Rightarrow>
          Some (if faces = [] then Inr NoFacesDetected
                else (case compare_all_pairs cmp faces threshold of
                        Inl e \<Rightarrow> Inl e
                      | Inr results \<Rightarrow>
                          if results = [] then Inr NoComparisonsMade
                          else Inr (ResultsSaved (write_results path_name fmt4 results)))))"

text \<open>
  Mocked externals for the pipeline: pathlib's \<open>/\<close> on a plain relative directory, a child
  process that exits with 0 leaving three crops, and one that is killed (non-zero exit)
  after it saved the first crop.
\<close>

definition mock_path_div :: "string \<Rightarrow> string \<Rightarrow> string" where
  "mock_path_div d name = d @ ''/'' @ name"

definition mock_run_cropping :: "string \<Rightarrow> string \<Rightarrow> int \<times> string \<times> (string \<Rightarrow> bool)" where
  "mock_run_cropping input_dir output_dir =
     (0, [], \<lambda>p. p \<in> set [''pairs/1.jpg'', ''pairs/2.jpg'', ''pairs/3.jpg'', ''pairs/5.jpg''])"

definition mock_killed_cropping :: "string \<Rightarrow> string \<Rightarrow> int \<times> string \<times> (string \<Rightarrow> bool)" where
  "mock_killed_cropping input_dir output_dir =
     (- 9, [], \<lambda>p. p \<in> set [''pairs/1.jpg''])"

text \<open>The decision stored in a result.\<close>

definition is_same :: "comparison \<Rightarrow> bool" where
  "is_same r = (case r of (img1, img2, distance, same) \<Rightarrow> same)"

section \<open>server\_api.py: the HTTP endpoint\<close>

text \<open>
  An uploaded file (\<open>upload.filename\<close>, which may be \<open>None\<close>, and the bytes of
  \<open>upload.file\<close>), and the answer with its HTTP status. The handler answers with a JSON
  object of the keys \<open>success\<close>, \<open>error\<close>, \<open>results\<close> and \<open>output\<close> (a returned \<open>dict\<close> is sent
  with status 200); the framework's answer to a request that fails its validation holds the
  key \<open>detail\<close> only.
\<close>

record upload =
  filename :: "string option"
  file_content :: string

record json_body =
  body_success :: bool
  body_error :: "string option"
  body_results :: "string option"
  body_output :: "string option"

datatype response_content = Answer json_body | ValidationDetail

record response =
  status_code :: nat
  content :: response_content


text \<open>
  What the handler changes: the entries of \<open>RAW_DIR\<close> (each a regular file with its content
  or a subdirectory; \<open>None\<close> when \<open>RAW_DIR\<close> does not exist) and the child processes it has
  started (their argument lists).
\<close>

datatype dir_entry = RegularFile string | Directory

type_synonym directory = "(string \<times> dir_entry) list"

record server_state =
  raw_dir :: "directory option"
  subprocess_calls :: "string list list"

text \<open>
  What the handler reads from outside: \<open>clock_ms k\<close> is \<open>int(time.time() * 1000)\<close> as read
  for the \<open>k\<close>-th upload of the request; \<open>open_wb\<close> is the exception, if any, of opening and
  copying to a destination; \<open>subprocess_run\<close> is the child process run on the staged directory,
  giving its return code, stdout, stderr and the text of the results file afterwards
  (\<open>None\<close> when it does not exist), or the exception \<open>subprocess.run\<close> raises;
  \<open>str_float\<close> is \<open>str\<close> on a float; the rest are the module's path constants.
\<close>

record completed_process =
  proc_returncode :: int
  proc_stdout :: string
  proc_stderr :: string
  proc_results_file :: "string option"

record server_env =
  clock_ms :: "nat \<Rightarrow> nat"
  open_wb :: "string \<Rightarrow> py_exception option"
  subprocess_run :: "string list \<Rightarrow> directory option \<Rightarrow> py_exception + completed_process"
  str_float :: "real \<Rightarrow> string"
  python_executable :: string
  raw_dir_path :: string
  pairs_dir_path :: string
  results_file_path :: string

text \<open>
  \<open>clear_raw_images\<close>: the regular files of an existing directory are unlinked; a missing
  directory is created.
\<close>

definition is_file :: "string \<times> dir_entry \<Rightarrow> bool" where
  "is_file item = (case snd item of RegularFile data \<Rightarrow> True | Directory \<Rightarrow> False)"

definition clear_raw_images :: "server_state \<Rightarrow> server_state" where
  "clear_raw_images st =
     (case raw_dir st of
        Some items \<Rightarrow> st\<lparr>raw_dir := Some (filter (\<lambda>item. \<not> is_file item) items)\<rparr>
      | None \<Rightarrow> st\<lparr>raw_dir := Some []\<rparr>)"

text \<open>Writing a file in a directory replaces the entry of the same name.\<close>

fun write_file :: "string \<Rightarrow> string \<Rightarrow> directory \<Rightarrow> directory" where
  "write_file name data [] = [(name, RegularFile data)]"
| "write_file name data ((n, d) # items) =
     (if n = name then (name, RegularFile data) # items else (n, d) # write_file name data items)"

text \<open>
  \<open>f"{x}"\<close> of an optional string, and \<open>str.strip\<close>: a character is read as a code point
  below 256, and the whitespace among these is removed.
\<close>

definition format_optional :: "string option \<Rightarrow> string" where
  "format_optional x = (case x of None \<Rightarrow> ''None'' | Some s \<Rightarrow> s)"

definition is_space :: "char \<Rightarrow> bool" where
  "is_space c =
     (c \<in> set [CHR '' '', CHR 0x09, CHR ''\<newline>'', CHR 0x0B, CHR 0x0C, CHR 0x0D,
               CHR 0x1C, CHR 0x1D, CHR 0x1E, CHR 0x1F, CHR 0x85, CHR 0xA0])"

definition py_strip :: "string \<Rightarrow> string" where
  "py_strip s = rev (dropWhile is_space (rev (dropWhile is_space s)))"

text \<open>The name under which the \<open>k\<close>-th upload is saved (line 48).\<close>

definition saved_filename :: "server_env \<Rightarrow> nat \<Rightarrow> upload \<Rightarrow> string" where
  "saved_filename env k u = str_nat (clock_ms env k) @ ''_'' @ format_optional (filename u)"

text \<open>
  The loop of lines 47 to 51 from the \<open>k\<close>-th upload on; a raise leaves the loop with the
  files saved so far.
\<close>

fun save_uploads ::
  "server_env \<Rightarrow> nat \<Rightarrow> upload list \<Rightarrow> server_state \<Rightarrow> py_exception option \<times> server_state" where
  "save_uploads env k [] st = (None, st)"
| "save_uploads env k (u # images) st =
     (let name = saved_filename env k u in
      case raw_dir st of
        None \<Rightarrow> (Some (Exception ''No such file or directory''), st)
      | Some items \<Rightarrow>
          (case open_wb env name of
             Some e \<Rightarrow> (Some e, st)
           | None \<Rightarrow>
               save_uploads env (k + 1) images
                 (st\<lparr>raw_dir := Some (write_file name (file_content u) items)\<rparr>)))"

text \<open>A \<open>JSONResponse\<close> (or returned \<open>dict\<close>) with the keys the handler sets.\<close>

definition json_response :: "nat \<Rightarrow> bool \<Rightarrow> string option \<Rightarrow> string option \<Rightarrow> string option \<Rightarrow> response" where
  "json_response code ok err res out =
     \<lparr>status_code = code,
      content = Answer \<lparr>body_success = ok, body_error = err, body_results = res, body_output = out\<rparr>\<rparr>"

text \<open>
  The body of the handler of \<open>POST /compare\<close> (the function \<open>compare_faces\<close> of
  server\_api.py, lines 38 to 98), with the \<open>try\<close> and its handler: an exception of the saves
  or of \<open>subprocess.run\<close> becomes a 500 answer.
\<close>

definition compare_faces_handler ::
  "server_env \<Rightarrow> upload list \<Rightarrow> real \<Rightarrow> server_state \<Rightarrow> response \<times> server_state" where
  "compare_faces_handler env images threshold st =
     (if length images < 2 then
        (json_response 400 False (Some ''Please upload at least two images.'') None None, st)
      else
        (let st1 = clear_raw_images st in
         case save_uploads env 0 images st1 of
           (Some (Exception msg), st2) \<Rightarrow> (json_response 500 False (Some msg) None None, st2)
         | (None, st2) \<Rightarrow>
             (let argv = [python_executable env, ''Face_Recognition_System.py'',
                          ''--input-dir'', raw_dir_path env,
                          ''--output-dir'', pairs_dir_path env,
                          ''--threshold'', str_float env threshold,
                          ''--results-file'', results_file_path env];
                  st3 = st2\<lparr>subprocess_calls := subprocess_calls st2 @ [argv]\<rparr>
              in case subprocess_run env argv (raw_dir st2) of
                   Inl (Exception msg) \<Rightarrow> (json_response 500 False (Some msg) None None, st3)
                 | Inr result \<Rightarrow>
                     if proc_returncode result \<noteq> 0 then
                       (json_response 500 False
                          (Some (if py_strip (proc_stderr result) \<noteq> [] then py_strip (proc_stderr result)
                                 else ''Face recognition failed.''))
                          None (Some (proc_stdout result)), st3)
                     else
                       (case proc_results_file result of
                          None \<Rightarrow> (json_response 500 False (Some ''Results file not found.'') None None, st3)
                        | Some results_text \<Rightarrow>
                            (json_response 200 True None (Some results_text) (Some (proc_stdout result)),
                             st3)))))"

text \<open>
  The route \<open>POST /compare\<close> as declared at lines 33 to 37. \<open>images\<close> is a required form
  field (\<open>File(...)\<close>): a request that carries no image is answered by the framework with
  status 422 before the handler runs, and the server is left as it was. Otherwise the handler
  runs on the uploads. The threshold is the float the framework has read from the form.
\<close>

definition compare_faces_endpoint ::
  "server_env \<Rightarrow> upload list \<Rightarrow> real \<Rightarrow> server_state \<Rightarrow> response \<times> server_state" where
  "compare_faces_endpoint env images threshold st =
     (if images = [] then (\<lparr>status_code = 422, content = ValidationDetail\<rparr>, st)
      else compare_faces_handler env images threshold st)"

text \<open>
  A mocked server: the clock reads the same millisecond for every upload of the request,
  every file opens, and the pipeline succeeds with a one-line report.
\<close>

definition mock_server_env :: server_env where
  "mock_server_env =
     \<lparr>clock_ms = (\<lambda>k. 1700000000000),
      open_wb = (\<lambda>name. None),
      subprocess_run = (\<lambda>argv files.
         Inr \<lparr>proc_returncode = 0, proc_stdout = ''ok'', proc_stderr = [],
              proc_results_file = Some ''=== Face Recognition Results ===''\<rparr>),
      str_float = (\<lambda>x. ''1.0''),
      python_executable = ''python'',
      raw_dir_path = ''RawImages'',
      pairs_dir_path = ''pairs'',
      results_file_path = ''results.txt''\<rparr>"

text \<open>A server with one stale staged file and no child process started yet.\<close>

definition mock_server_state :: server_state where
  "mock_server_state =
     \<lparr>raw_dir = Some [(''1699999999999_old.jpg'', RegularFile ''stale'')], subprocess_calls = []\<rparr>"

text \<open>Two uploads with the same filename.\<close>

definition mock_upload_first :: upload where
  "mock_upload_first = \<lparr>filename = Some ''face.jpg'', file_content = ''first''\<rparr>"

definition mock_upload_second :: upload where
  "mock_upload_second = \<lparr>filename = Some ''face.jpg'', file_content = ''second''\<rparr>"

text \<open>The value of a decimal digit: it reads \<open>str_nat\<close> back.\<close>

definition digit_value :: "char \<Rightarrow> nat" where
  "digit_value c = (case map_of (zip ''0123456789'' [0, 1, 2, 3, 4, 5, 6, 7, 8, 9]) c of None \<Rightarrow> 0 | Some d \<Rightarrow> d)"

section \<open>Properties of the pairwise comparator\<close>

subsection \<open>The loops of \<open>compare_all_pairs\<close> in closed form\<close>

lemma pairs_inner_ok:
  "\<forall>j \<in> set js. \<not> isl (cmp (fs ! i) (fs ! j)) \<Longrightarrow>
   pairs_inner cmp fs thr i js rs = Inr (rs @ map (\<lambda>j. pair_entry cmp fs thr (i, j)) js)"
  by (induction js arbitrary: rs) (auto simp: pair_entry_def Let_def split: sum.splits)

lemma pairs_outer_ok:
  "\<forall>i \<in> set is. \<forall>j \<in> {i + 1 ..< length fs}. \<not> isl (cmp (fs ! i) (fs ! j)) \<Longrightarrow>
   pairs_outer cmp fs thr is rs =
     Inr (rs @ map (pair_entry cmp fs thr) (concat (map (\<lambda>i. map (Pair i) [i + 1 ..< length fs]) is)))"
proof (induction "is" arbitrary: rs)
  case Nil
  then show ?case by simp
next
  case (Cons i "is")
  have "pairs_inner cmp fs thr i [i + 1 ..< length fs] rs =
          Inr (rs @ map (\<lambda>j. pair_entry cmp fs thr (i, j)) [i + 1 ..< length fs])"
    using Cons.prems by (intro pairs_inner_ok) simp
  moreover have "\<forall>i \<in> set is. \<forall>j \<in> {i + 1 ..< length fs}. \<not> isl (cmp (fs ! i) (fs ! j))"
    using Cons.prems by simp
  ultimately show ?case
    using Cons.IH by (simp add: comp_def)
qed

lemma set_index_pairs: "set (index_pairs n) = {(i, j). i < j \<and> j < n}"
proof -
  have "(a, b) \<in> set (index_pairs n) \<longleftrightarrow> a < b \<and> b < n" for a b
    by (auto simp: index_pairs_def image_iff)
  then show ?thesis by auto
qed

lemma compare_all_pairs_ok:
  assumes "cmp_returns cmp fs"
  shows "compare_all_pairs cmp fs thr = Inr (map (pair_entry cmp fs thr) (index_pairs (length fs)))"
proof (cases "length fs < 2")
  case True
  then have "length fs = 0 \<or> length fs = 1" by arith
  then have "index_pairs (length fs) = []"
    by (auto simp: index_pairs_def)
  with True show ?thesis by (simp add: compare_all_pairs_def)
next
  case False
  have "\<forall>i \<in> set [0 ..< length fs]. \<forall>j \<in> {i + 1 ..< length fs}. \<not> isl (cmp (fs ! i) (fs ! j))"
    using assms by (auto simp: cmp_returns_def list_all_iff set_index_pairs)
  from pairs_outer_ok [OF this, of thr "[]"] False show ?thesis
    by (simp add: compare_all_pairs_def index_pairs_def)
qed

lemma distinct_rows:
  "distinct is \<Longrightarrow> distinct (concat (map (\<lambda>i. map (Pair i) [f i ..< n]) is))"
  by (induction "is") (auto simp: distinct_map inj_on_def)

lemma distinct_index_pairs: "distinct (index_pairs n)"
  unfolding index_pairs_def by (rule distinct_rows) simp

lemma length_index_pairs: "length (index_pairs n) = n * (n - 1) div 2"
proof -
  have "length (index_pairs n) = (\<Sum>i\<leftarrow>[0 ..< n]. n - Suc i)"
    by (simp add: index_pairs_def length_concat comp_def)
  also have "\<dots> = (\<Sum>i<n. n - Suc i)"
    by (simp add: sum_list_sum_nth atLeast0LessThan)
  also have "\<dots> = (\<Sum>i<n. i)"
    by (rule sum.nat_diff_reindex)
  also have "\<dots> = n * (n - 1) div 2"
    using gauss_sum_nat [of "n - 1"] by (cases n) (simp_all add: lessThan_Suc_atMost atMost_atLeast0)
  finally show ?thesis .
qed

lemma pair_entry_paths:
  "map (\<lambda>r. (fst r, fst (snd r))) (map (pair_entry cmp fs thr) ps) = map (\<lambda>ij. (fs ! fst ij, fs ! snd ij)) ps"
  by (simp add: pair_entry_def Let_def comp_def)

lemma inj_on_index_pairs:
  "distinct fs \<Longrightarrow> inj_on (\<lambda>ij. (fs ! fst ij, fs ! snd ij)) (set (index_pairs (length fs)))"
  by (auto simp: inj_on_def set_index_pairs nth_eq_iff_index_eq)

lemma no_reversed_pair:
  assumes "distinct fs" "(a, b) \<in> set (map (\<lambda>ij. (fs ! fst ij, fs ! snd ij)) (index_pairs (length fs)))"
  shows "(b, a) \<notin> set (map (\<lambda>ij. (fs ! fst ij, fs ! snd ij)) (index_pairs (length fs)))"
proof
  assume "(b, a) \<in> set (map (\<lambda>ij. (fs ! fst ij, fs ! snd ij)) (index_pairs (length fs)))"
  then obtain i' j' where r: "i' < j'" "j' < length fs" "b = fs ! i'" "a = fs ! j'"
    by (auto simp: set_index_pairs)
  from assms(2) obtain i j where l: "i < j" "j < length fs" "a = fs ! i" "b = fs ! j"
    by (auto simp: set_index_pairs)
  from l r assms(1) have "i = j'" "j = i'"
    by (simp_all add: nth_eq_iff_index_eq)
  with l r show False by simp
qed

text \<open>
  C1. Whenever the comparator returns on the visited pairs, \<open>compare_all_pairs\<close> returns a
  list with one entry per index pair \<open>i < j\<close> of the input, in the loops' order: the index
  pairs are distinct and are exactly the pairs \<open>i < j < n\<close>, so there are \<open>n * (n - 1) div 2\<close>
  results. When the input paths are distinct (as the numbered crop files are) the path pairs
  are distinct too and no pair occurs reversed. For fewer than two faces the result is the
  empty list, whatever the comparator does.
\<close>

theorem compare_all_pairs_each_unordered_pair_once:
  "(length face_images < 2 \<longrightarrow> compare_all_pairs cmp face_images threshold = Inr []) \<and>
   (cmp_returns cmp face_images \<longrightarrow>
      (\<exists>results.
         compare_all_pairs cmp face_images threshold = Inr results \<and>
         results = map (pair_entry cmp face_images threshold) (index_pairs (length face_images)) \<and>
         length results = length face_images * (length face_images - 1) div 2 \<and>
         (distinct face_images \<longrightarrow>
            distinct (map (\<lambda>r. (fst r, fst (snd r))) results) \<and>
            (\<forall>a b. (a, b) \<in> set (map (\<lambda>r. (fst r, fst (snd r))) results) \<longrightarrow>
                   (b, a) \<notin> set (map (\<lambda>r. (fst r, fst (snd r))) results))))) \<and>
   distinct (index_pairs (length face_images)) \<and>
   set (index_pairs (length face_images)) = {(i, j). i < j \<and> j < length face_images}"
proof (intro conjI impI)
  show "compare_all_pairs cmp face_images threshold = Inr []" if "length face_images < 2"
    using that by (simp add: compare_all_pairs_def)
next
  assume ok: "cmp_returns cmp face_images"
  let ?n = "length face_images"
  let ?rs = "map (pair_entry cmp face_images threshold) (index_pairs ?n)"
  have 1: "compare_all_pairs cmp face_images threshold = Inr ?rs"
    by (rule compare_all_pairs_ok [OF ok])
  have 2: "length ?rs = ?n * (?n - 1) div 2"
    by (simp add: length_index_pairs)
  have 3: "distinct (map (\<lambda>r. (fst r, fst (snd r))) ?rs)" if "distinct face_images"
    unfolding pair_entry_paths
    using that by (simp add: distinct_map distinct_index_pairs inj_on_index_pairs)
  have 4: "(b, a) \<notin> set (map (\<lambda>r. (fst r, fst (snd r))) ?rs)"
    if "distinct face_images" "(a, b) \<in> set (map (\<lambda>r. (fst r, fst (snd r))) ?rs)" for a b
    using that unfolding pair_entry_paths by (rule no_reversed_pair)
  show "\<exists>results.
         compare_all_pairs cmp face_images threshold = Inr results \<and>
         results = map (pair_entry cmp face_images threshold) (index_pairs (length face_images)) \<and>
         length results = length face_images * (length face_images - 1) div 2 \<and>
         (distinct face_images \<longrightarrow>
            distinct (map (\<lambda>r. (fst r, fst (snd r))) results) \<and>
            (\<forall>a b. (a, b) \<in> set (map (\<lambda>r. (fst r, fst (snd r))) results) \<longrightarrow>
                   (b, a) \<notin> set (map (\<lambda>r. (fst r, fst (snd r))) results)))"
    using 1 2 3 4 by blast
next
  show "distinct (index_pairs (length face_images))"
    by (rule distinct_index_pairs)
next
  show "set (index_pairs (length face_images)) = {(i, j). i < j \<and> j < length face_images}"
    by (rule set_index_pairs)
qed

lemma index_pairs_3: "index_pairs 3 = [(0, 1), (0, 2), (1, 2)]"
  by code_simp

theorem compare_all_pairs_each_unordered_pair_once_witness:
  "length [''pairs/1.jpg''] < 2 \<and>
   compare_all_pairs mock_cmp [''pairs/1.jpg''] 1 = Inr [] \<and>
   cmp_returns mock_cmp [''pairs/1.jpg'', ''pairs/2.jpg'', ''pairs/3.jpg''] \<and>
   distinct [''pairs/1.jpg'', ''pairs/2.jpg'', ''pairs/3.jpg''] \<and>
   compare_all_pairs mock_cmp [''pairs/1.jpg'', ''pairs/2.jpg'', ''pairs/3.jpg''] 1 =
     Inr [(''pairs/1.jpg'', ''pairs/2.jpg'', 0.5, True),
          (''pairs/1.jpg'', ''pairs/3.jpg'', 1.5, False),
          (''pairs/2.jpg'', ''pairs/3.jpg'', 2, False)] \<and>
   length [(''pairs/1.jpg'', ''pairs/2.jpg'', 0.5 :: real, True),
          (''pairs/1.jpg'', ''pairs/3.jpg'', 1.5, False),
          (''pairs/2.jpg'', ''pairs/3.jpg'', 2, False)] = 3 * (3 - 1) div 2 \<and>
   (''pairs/1.jpg'', ''pairs/2.jpg'') \<in> set (map (\<lambda>r. (fst r, fst (snd r)))
        [(''pairs/1.jpg'', ''pairs/2.jpg'', 0.5 :: real, True),
          (''pairs/1.jpg'', ''pairs/3.jpg'', 1.5, False),
          (''pairs/2.jpg'', ''pairs/3.jpg'', 2, False)]) \<and>
   (''pairs/2.jpg'', ''pairs/1.jpg'') \<notin> set (map (\<lambda>r. (fst r, fst (snd r)))
        [(''pairs/1.jpg'', ''pairs/2.jpg'', 0.5 :: real, True),
          (''pairs/1.jpg'', ''pairs/3.jpg'', 1.5, False),
          (''pairs/2.jpg'', ''pairs/3.jpg'', 2, False)])"
proof -
  let ?fs = "[''pairs/1.jpg'', ''pairs/2.jpg'', ''pairs/3.jpg'']"
  let ?rs = "[(''pairs/1.jpg'', ''pairs/2.jpg'', 0.5 :: real, True),
          (''pairs/1.jpg'', ''pairs/3.jpg'', 1.5, False),
          (''pairs/2.jpg'', ''pairs/3.jpg'', 2, False)]"
  have small: "length [''pairs/1.jpg''] < 2" by simp
  have ok: "cmp_returns mock_cmp ?fs"
    by (simp add: cmp_returns_def index_pairs_3 [unfolded numeral_3_eq_3] mock_cmp_def)
  have d: "distinct ?fs" by simp
  note t1 = compare_all_pairs_each_unordered_pair_once [of "[''pairs/1.jpg'']" mock_cmp 1]
  note t3 = compare_all_pairs_each_unordered_pair_once [of ?fs mock_cmp 1]
  from t1 small have a: "compare_all_pairs mock_cmp [''pairs/1.jpg''] 1 = Inr []" by blast
  have c: "map (pair_entry mock_cmp ?fs 1) (index_pairs (length ?fs)) = ?rs"
    by (simp add: index_pairs_3 [unfolded numeral_3_eq_3] pair_entry_def mock_cmp_def)
  from t3 ok d have b: "compare_all_pairs mock_cmp ?fs 1 = Inr ?rs \<and>
     length ?rs = length ?fs * (length ?fs - 1) div 2 \<and>
     (\<forall>a b. (a, b) \<in> set (map (\<lambda>r. (fst r, fst (snd r))) ?rs) \<longrightarrow>
                   (b, a) \<notin> set (map (\<lambda>r. (fst r, fst (snd r))) ?rs))"
    unfolding c by blast
  have m: "(''pairs/1.jpg'', ''pairs/2.jpg'') \<in> set (map (\<lambda>r. (fst r, fst (snd r))) ?rs)"
    by simp
  from b m have r: "(''pairs/2.jpg'', ''pairs/1.jpg'') \<notin> set (map (\<lambda>r. (fst r, fst (snd r))) ?rs)"
    by blast
  from b have l: "length ?rs = 3 * (3 - 1) div 2" by simp
  show ?thesis
    using small a ok d b m r l by blast
qed

subsection \<open>The decision is the strict threshold test\<close>

lemma pairs_inner_decision:
  "pairs_inner cmp fs thr i js rs = Inr rs' \<Longrightarrow>
   \<forall>r \<in> set rs. threshold_decision cmp thr r \<Longrightarrow>
   \<forall>r \<in> set rs'. threshold_decision cmp thr r"
proof (induction js arbitrary: rs)
  case Nil
  then show ?case by simp
next
  case (Cons j js)
  from Cons.prems(1) obtain d where d: "cmp (fs ! i) (fs ! j) = Inr d"
    and rest: "pairs_inner cmp fs thr i js (rs @ [(fs ! i, fs ! j, d, d < thr)]) = Inr rs'"
    by (auto simp: Let_def split: sum.splits)
  have "\<forall>r \<in> set (rs @ [(fs ! i, fs ! j, d, d < thr)]). threshold_decision cmp thr r"
    using Cons.prems(2) d by (simp add: threshold_decision_def)
  with Cons.IH rest show ?case by blast
qed

lemma pairs_outer_decision:
  "pairs_outer cmp fs thr is rs = Inr rs' \<Longrightarrow>
   \<forall>r \<in> set rs. threshold_decision cmp thr r \<Longrightarrow>
   \<forall>r \<in> set rs'. threshold_decision cmp thr r"
proof (induction "is" arbitrary: rs)
  case Nil
  then show ?case by simp
next
  case (Cons i "is")
  from Cons.prems(1) obtain rs1 where
    inner: "pairs_inner cmp fs thr i [i + 1 ..< length fs] rs = Inr rs1"
    and rest: "pairs_outer cmp fs thr is rs1 = Inr rs'"
    by (auto split: sum.splits)
  from pairs_inner_decision [OF inner Cons.prems(2)] Cons.IH [OF rest] show ?case by blast
qed

text \<open>
  C2. Whenever the comparator returns on the visited pairs, \<open>compare_all_pairs\<close> returns a
  list in which every pair of faces \<open>i < j\<close> has its entry: the two paths, the distance \<open>d\<close>
  the comparator computed for them, and the decision \<open>d < threshold\<close>, which is false when
  \<open>d\<close> equals the threshold. The list has one entry per pair, and every entry
  \<open>(a, b, d, same)\<close> of it carries the comparator's distance for \<open>a\<close> and \<open>b\<close> with
  \<open>same\<close> holding iff \<open>d < threshold\<close>: the decision is a function of the distance and the
  threshold alone.
\<close>

theorem same_iff_distance_below_threshold:
  assumes "cmp_returns cmp face_images"
  shows "\<exists>results.
           compare_all_pairs cmp face_images threshold = Inr results \<and>
           length results = length (index_pairs (length face_images)) \<and>
           (\<forall>i j. i < j \<and> j < length face_images \<longrightarrow>
              (\<exists>d. cmp (face_images ! i) (face_images ! j) = Inr d \<and>
                   (face_images ! i, face_images ! j, d, d < threshold) \<in> set results \<and>
                   (d = threshold \<longrightarrow>
                      (face_images ! i, face_images ! j, d, False) \<in> set results))) \<and>
           (\<forall>a b d same. (a, b, d, same) \<in> set results \<longrightarrow>
              cmp a b = Inr d \<and> same = (d < threshold) \<and> (d = threshold \<longrightarrow> \<not> same))"
proof -
  let ?n = "length face_images"
  let ?rs = "map (pair_entry cmp face_images threshold) (index_pairs ?n)"
  have run: "compare_all_pairs cmp face_images threshold = Inr ?rs"
    by (rule compare_all_pairs_ok [OF assms])
  have each: "\<exists>d. cmp (face_images ! i) (face_images ! j) = Inr d \<and>
                (face_images ! i, face_images ! j, d, d < threshold) \<in> set ?rs \<and>
                (d = threshold \<longrightarrow> (face_images ! i, face_images ! j, d, False) \<in> set ?rs)"
    if "i < j \<and> j < ?n" for i j
  proof -
    from that have mem: "(i, j) \<in> set (index_pairs ?n)"
      by (simp add: set_index_pairs)
    with assms have "\<not> isl (cmp (face_images ! i) (face_images ! j))"
      by (auto simp: cmp_returns_def list_all_iff)
    then obtain d where d: "cmp (face_images ! i) (face_images ! j) = Inr d"
      by (cases "cmp (face_images ! i) (face_images ! j)") auto
    then have "pair_entry cmp face_images threshold (i, j) =
        (face_images ! i, face_images ! j, d, d < threshold)"
      by (simp add: pair_entry_def)
    with mem have "(face_images ! i, face_images ! j, d, d < threshold) \<in> set ?rs"
      by (metis image_eqI set_map)
    with d show ?thesis by auto
  qed
  have "pairs_outer cmp face_images threshold [0 ..< ?n] [] = Inr ?rs \<or> ?rs = []"
    using run by (cases "?n < 2") (auto simp: compare_all_pairs_def)
  then have dec: "\<forall>r \<in> set ?rs. threshold_decision cmp threshold r"
  proof
    assume "pairs_outer cmp face_images threshold [0 ..< ?n] [] = Inr ?rs"
    from pairs_outer_decision [OF this] show ?thesis by simp
  next
    assume "?rs = []"
    then show ?thesis by simp
  qed
  have every: "cmp a b = Inr d \<and> same = (d < threshold) \<and> (d = threshold \<longrightarrow> \<not> same)"
    if "(a, b, d, same) \<in> set ?rs" for a b d same
    using dec that by (auto simp: threshold_decision_def)
  have len: "length ?rs = length (index_pairs ?n)"
    by simp
  have pairs: "\<forall>i j. i < j \<and> j < ?n \<longrightarrow>
              (\<exists>d. cmp (face_images ! i) (face_images ! j) = Inr d \<and>
                   (face_images ! i, face_images ! j, d, d < threshold) \<in> set ?rs \<and>
                   (d = threshold \<longrightarrow>
                      (face_images ! i, face_images ! j, d, False) \<in> set ?rs))"
    using each by blast
  have entries: "\<forall>a b d same. (a, b, d, same) \<in> set ?rs \<longrightarrow>
              cmp a b = Inr d \<and> same = (d < threshold) \<and> (d = threshold \<longrightarrow> \<not> same)"
    using every by blast
  show ?thesis
    by (rule exI [of _ ?rs]) (intro conjI run len pairs entries)
qed

theorem same_iff_distance_below_threshold_witness:
  "cmp_returns mock_cmp [''pairs/1.jpg'', ''pairs/2.jpg'', ''pairs/3.jpg''] \<and>
   compare_all_pairs mock_cmp [''pairs/1.jpg'', ''pairs/2.jpg'', ''pairs/3.jpg''] 1.5 =
     Inr [(''pairs/1.jpg'', ''pairs/2.jpg'', 0.5, True),
          (''pairs/1.jpg'', ''pairs/3.jpg'', 1.5, False),
          (''pairs/2.jpg'', ''pairs/3.jpg'', 2, False)] \<and>
   mock_cmp ''pairs/1.jpg'' ''pairs/3.jpg'' = Inr 1.5 \<and>
   (''pairs/1.jpg'', ''pairs/3.jpg'', 1.5 :: real, (1.5 :: real) < 1.5) \<in>
     set [(''pairs/1.jpg'', ''pairs/2.jpg'', 0.5, True),
          (''pairs/1.jpg'', ''pairs/3.jpg'', 1.5, False),
          (''pairs/2.jpg'', ''pairs/3.jpg'', 2, False)] \<and>
   True = ((0.5 :: real) < 1.5) \<and> False = ((1.5 :: real) < 1.5) \<and> False = ((2 :: real) < 1.5)"
proof -
  let ?fs = "[''pairs/1.jpg'', ''pairs/2.jpg'', ''pairs/3.jpg'']"
  let ?rs = "[(''pairs/1.jpg'', ''pairs/2.jpg'', 0.5 :: real, True),
          (''pairs/1.jpg'', ''pairs/3.jpg'', 1.5, False),
          (''pairs/2.jpg'', ''pairs/3.jpg'', 2, False)]"
  have ok: "cmp_returns mock_cmp ?fs"
    by (simp add: cmp_returns_def index_pairs_3 [unfolded numeral_3_eq_3] mock_cmp_def)
  have run: "compare_all_pairs mock_cmp ?fs 1.5 = Inr ?rs"
    by (simp add: compare_all_pairs_def mock_cmp_def)
  from same_iff_distance_below_threshold [OF ok, of "1.5"]
  obtain results where r: "compare_all_pairs mock_cmp ?fs 1.5 = Inr results"
    and p: "\<forall>i j. i < j \<and> j < length ?fs \<longrightarrow>
              (\<exists>d. mock_cmp (?fs ! i) (?fs ! j) = Inr d \<and>
                   (?fs ! i, ?fs ! j, d, d < 1.5) \<in> set results \<and>
                   (d = 1.5 \<longrightarrow> (?fs ! i, ?fs ! j, d, False) \<in> set results))"
    and e: "\<forall>a b d same. (a, b, d, same) \<in> set results \<longrightarrow>
              mock_cmp a b = Inr d \<and> same = (d < 1.5) \<and> (d = 1.5 \<longrightarrow> \<not> same)"
    by blast
  from r run have res: "results = ?rs"
    by simp
  from p have pairs: "\<forall>i j. i < j \<and> j < length ?fs \<longrightarrow>
              (\<exists>d. mock_cmp (?fs ! i) (?fs ! j) = Inr d \<and>
                   (?fs ! i, ?fs ! j, d, d < 1.5) \<in> set ?rs)"
    unfolding res by blast
  from e have entries: "\<forall>a b d same. (a, b, d, same) \<in> set ?rs \<longrightarrow>
              mock_cmp a b = Inr d \<and> same = (d < 1.5)"
    unfolding res by blast
  from pairs [rule_format, of 0 2]
  obtain d where d: "mock_cmp ''pairs/1.jpg'' ''pairs/3.jpg'' = Inr d"
    and m: "(''pairs/1.jpg'', ''pairs/3.jpg'', d, d < 1.5) \<in> set ?rs"
    by auto
  from d have d15: "d = 1.5"
    by (simp add: mock_cmp_def)
  from entries [rule_format, of "''pairs/1.jpg''" "''pairs/2.jpg''" "0.5" True]
  have e1: "True = ((0.5 :: real) < 1.5)" by simp
  from entries [rule_format, of "''pairs/1.jpg''" "''pairs/3.jpg''" "1.5" False]
  have e2: "False = ((1.5 :: real) < 1.5)" by simp
  from entries [rule_format, of "''pairs/2.jpg''" "''pairs/3.jpg''" "2" False]
  have e3: "False = ((2 :: real) < 1.5)" by simp
  from d m have d': "mock_cmp ''pairs/1.jpg'' ''pairs/3.jpg'' = Inr 1.5"
    and m': "(''pairs/1.jpg'', ''pairs/3.jpg'', 1.5, (1.5 :: real) < 1.5) \<in> set ?rs"
    unfolding d15 by simp_all
  show ?thesis
    by (intro conjI ok run d' m' e1 e2 e3)
qed

section \<open>Properties of \<open>compare_faces\<close>\<close>

lemma torch_norm_diff_commute: "torch_norm_diff emb1 emb2 = torch_norm_diff emb2 emb1"
proof -
  have "map (\<lambda>(x, y). (x - y)\<^sup>2) (zip emb1 emb2) = map (\<lambda>(x, y). (x - y)\<^sup>2) (zip emb2 emb1)"
    by (subst zip_commute) (simp add: comp_def case_prod_unfold power2_commute)
  then show ?thesis by (simp add: torch_norm_diff_def)
qed

lemma torch_norm_diff_self: "torch_norm_diff emb emb = 0"
  by (simp add: torch_norm_diff_def zip_same_conv_map comp_def)

text \<open>
  C8. For two crop paths that load and embed, \<open>compare_faces a b\<close> and \<open>compare_faces b a\<close>
  return the same distance, and \<open>compare_faces a a\<close> returns 0. Tensors are vectors of reals
  and the network is a deterministic function, so loading the same file twice gives the same
  embedding.
\<close>

theorem compare_faces_symmetric_zero_on_self:
  assumes "embeds pil_open model a" and "embeds pil_open model b"
  shows "\<exists>d. compare_faces pil_open model a b = Inr d \<and>
             compare_faces pil_open model b a = Inr d \<and>
             compare_faces pil_open model a a = Inr 0"
  using assms
  by (auto simp: embeds_def compare_faces_def torch_norm_diff_commute torch_norm_diff_self
      split: sum.splits)

theorem compare_faces_symmetric_zero_on_self_witness:
  "embeds mock_pil_open mock_model ''pairs/1.jpg'' \<and>
   embeds mock_pil_open mock_model ''pairs/2.jpg'' \<and>
   compare_faces mock_pil_open mock_model ''pairs/1.jpg'' ''pairs/2.jpg'' = Inr 4 \<and>
   compare_faces mock_pil_open mock_model ''pairs/2.jpg'' ''pairs/1.jpg'' = Inr 4 \<and>
   compare_faces mock_pil_open mock_model ''pairs/1.jpg'' ''pairs/1.jpg'' = Inr 0"
proof -
  have a: "embeds mock_pil_open mock_model ''pairs/1.jpg''"
    by (simp add: embeds_def load_image_def mock_pil_open_def mock_model_def)
  have b: "embeds mock_pil_open mock_model ''pairs/2.jpg''"
    by (simp add: embeds_def load_image_def mock_pil_open_def mock_model_def)
  have ab: "compare_faces mock_pil_open mock_model ''pairs/1.jpg'' ''pairs/2.jpg'' = Inr 4"
    by (simp add: compare_faces_def load_image_def mock_pil_open_def mock_model_def
        torch_norm_diff_def)
  from compare_faces_symmetric_zero_on_self [OF a b] ab a b show ?thesis
    by auto
qed

section \<open>Properties of the extraction loop\<close>

subsection \<open>Numbering\<close>

lemma print_line_frame:
  "print_line env s st = Inr st' \<Longrightarrow>
   face_counter st' = face_counter st \<and> written st' = written st \<and> uncaught st' = uncaught st"
  by (auto simp: print_line_def split: option.splits)

lemma try_body_step:
  "try_body env out p st = Inr st' \<Longrightarrow>
   (face_counter st' = face_counter st \<and> written st' = written st) \<or>
   (\<exists>pic. written st' = written st @ [(crop_name out (face_counter st), pic)] \<and>
          face_counter st' = face_counter st + 1)"
  by (auto simp: try_body_def crop_name_def Let_def
      split: sum.splits option.splits if_splits dest: print_line_frame)

lemma process_file_on_raise:
  assumes "is_image_name fname"
    and "try_body env out (os_path_join r fname) st = Inl (Exception e)"
  shows "process_file env out r fname st =
           (case stdout_write env ('' Could not process '' @ os_path_join r fname @ '': '' @ e) of
              None \<Rightarrow> st\<lparr>printed := printed st @
                           ['' Could not process '' @ os_path_join r fname @ '': '' @ e]\<rparr>
            | Some ex \<Rightarrow> st\<lparr>uncaught := Some ex\<rparr>)"
  using assms by (simp add: process_file_def print_line_def Let_def split: option.splits)

lemma process_file_raise_frame:
  assumes "is_image_name fname"
    and "try_body env out (os_path_join r fname) st = Inl ex"
  shows "face_counter (process_file env out r fname st) = face_counter st \<and>
         written (process_file env out r fname st) = written st"
proof -
  obtain e where "ex = Exception e" by (cases ex)
  with assms show ?thesis
    by (simp add: process_file_on_raise split: option.splits)
qed

lemma process_file_step:
  "(face_counter (process_file env out r fname st) = face_counter st \<and>
    written (process_file env out r fname st) = written st) \<or>
   (\<exists>pic. written (process_file env out r fname st) =
            written st @ [(crop_name out (face_counter st), pic)] \<and>
          face_counter (process_file env out r fname st) = face_counter st + 1)"
proof (cases "is_image_name fname")
  case False
  then show ?thesis by (simp add: process_file_def)
next
  case True
  show ?thesis
  proof (cases "try_body env out (os_path_join r fname) st")
    case (Inl e)
    from process_file_raise_frame [OF True Inl] show ?thesis by simp
  next
    case (Inr st')
    from try_body_step [OF Inr] True Inr show ?thesis
      by (simp add: process_file_def Let_def)
  qed
qed

lemma numbered_process_file:
  assumes "numbered out st"
  shows "numbered out (process_file env out r fname st)"
  using process_file_step [of env out r fname st] assms
  by (auto simp: numbered_def)

lemma numbered_files_loop:
  "numbered out st \<Longrightarrow> numbered out (files_loop env out r files st)"
  by (induction files arbitrary: st) (simp_all add: numbered_process_file)

lemma numbered_walk_loop:
  "numbered out st \<Longrightarrow> numbered out (walk_loop env out walk st)"
  by (induction walk arbitrary: st) (auto simp: numbered_files_loop)

lemma numbered_length:
  "numbered out st \<Longrightarrow> face_counter st = 1 + length (written st)"
proof -
  assume n: "numbered out st"
  then have "length (map fst (written st)) = length (map (crop_name out) [1 ..< face_counter st])"
    by (simp only: numbered_def)
  then have "length (written st) = face_counter st - 1"
    by simp
  moreover from n have "1 \<le> face_counter st"
    by (simp add: numbered_def)
  ultimately show ?thesis by arith
qed

lemma numbered_face_cropping: "numbered out (face_cropping env walk out)"
  unfolding face_cropping_def
  by (rule numbered_walk_loop) (simp add: numbered_def)

lemma try_body_no_face:
  assumes "image_open env p = Inr img"
    and "mtcnn_faces env img = Inr None \<or> mtcnn_faces env img = Inr (Some [])"
  shows "try_body env out p st = print_line env ('' No face detected in '' @ p) st"
  using assms by (auto simp: try_body_def)

lemma try_body_no_box:
  assumes "try_body env out p st = Inr st'" and "image_open env p = Inr img"
    and "mtcnn_detect env img = Inr None"
  shows "face_counter st' = face_counter st \<and> written st' = written st"
  using assms
  by (auto simp: try_body_def split: sum.splits if_splits dest: print_line_frame)

text \<open>
  C4. After the script has walked any input, the crops it saved are named
  \<open>1.jpg, 2.jpg, ...\<close> in order up to the counter, which is one more than their number. Each
  file either leaves counter and crops unchanged or saves one crop under the counter's number
  and increments it; a file without an image extension, a file whose processing raises, and
  a file with no face or no bounding box leave both unchanged.
\<close>

theorem face_counter_contiguous_from_one:
  "face_counter (face_cropping env walk out) = 1 + length (written (face_cropping env walk out)) \<and>
   map fst (written (face_cropping env walk out)) =
     map (crop_name out) [1 ..< face_counter (face_cropping env walk out)] \<and>
   (face_counter (process_file env out r fname st) = face_counter st \<and>
      written (process_file env out r fname st) = written st \<or>
    (\<exists>pic. written (process_file env out r fname st) =
             written st @ [(crop_name out (face_counter st), pic)] \<and>
           face_counter (process_file env out r fname st) = face_counter st + 1)) \<and>
   (\<not> is_image_name fname \<longrightarrow> process_file env out r fname st = st) \<and>
   (is_image_name fname \<and> try_body env out (os_path_join r fname) st = Inl (Exception e) \<longrightarrow>
      face_counter (process_file env out r fname st) = face_counter st \<and>
      written (process_file env out r fname st) = written st) \<and>
   (image_open env (os_path_join r fname) = Inr img \<and>
    (mtcnn_faces env img = Inr None \<or> mtcnn_faces env img = Inr (Some []) \<or>
     mtcnn_detect env img = Inr None) \<longrightarrow>
      face_counter (process_file env out r fname st) = face_counter st \<and>
      written (process_file env out r fname st) = written st)"
proof (intro conjI impI)
  show "face_counter (face_cropping env walk out) = 1 + length (written (face_cropping env walk out))"
    by (rule numbered_length [OF numbered_face_cropping])
  show "map fst (written (face_cropping env walk out)) =
     map (crop_name out) [1 ..< face_counter (face_cropping env walk out)]"
    using numbered_face_cropping [of out env walk] by (simp add: numbered_def)
  show "face_counter (process_file env out r fname st) = face_counter st \<and>
      written (process_file env out r fname st) = written st \<or>
    (\<exists>pic. written (process_file env out r fname st) =
             written st @ [(crop_name out (face_counter st), pic)] \<and>
           face_counter (process_file env out r fname st) = face_counter st + 1)"
    by (rule process_file_step)
  show "process_file env out r fname st = st" if "\<not> is_image_name fname"
    using that by (simp add: process_file_def)
  show "face_counter (process_file env out r fname st) = face_counter st"
    and "written (process_file env out r fname st) = written st"
    if "is_image_name fname \<and> try_body env out (os_path_join r fname) st = Inl (Exception e)"
    using that process_file_raise_frame [of fname env out r st "Exception e"] by simp_all
  assume skip: "image_open env (os_path_join r fname) = Inr img \<and>
    (mtcnn_faces env img = Inr None \<or> mtcnn_faces env img = Inr (Some []) \<or>
     mtcnn_detect env img = Inr None)"
  have "face_counter (process_file env out r fname st) = face_counter st \<and>
      written (process_file env out r fname st) = written st"
  proof (cases "is_image_name fname")
    case False
    then show ?thesis by (simp add: process_file_def)
  next
    case True
    show ?thesis
    proof (cases "try_body env out (os_path_join r fname) st")
      case (Inl ex)
      from process_file_raise_frame [OF True Inl] show ?thesis .
    next
      case (Inr st')
      have "face_counter st' = face_counter st \<and> written st' = written st"
      proof (cases "mtcnn_detect env img = Inr None")
        case True
        from try_body_no_box [OF Inr _ True] skip show ?thesis by blast
      next
        case False
        with skip have "mtcnn_faces env img = Inr None \<or> mtcnn_faces env img = Inr (Some [])"
          by blast
        from try_body_no_face [OF _ this, of "os_path_join r fname" out st] skip Inr
        have "print_line env ('' No face detected in '' @ os_path_join r fname) st = Inr st'"
          by simp
        from print_line_frame [OF this] show ?thesis by simp
      qed
      with True Inr show ?thesis by (simp add: process_file_def Let_def)
    qed
  qed
  then show "face_counter (process_file env out r fname st) = face_counter st"
    and "written (process_file env out r fname st) = written st"
    by simp_all
qed

text \<open>The definitions unfolded to run the script on the mocked detector.\<close>

lemmas cropping_eval =
  face_cropping_def process_file_def try_body_def mock_cropper_def mock_walk_def is_image_name_def
  endswith_def py_lower_def lower_char_def os_path_join_def py_max_def box_area_def py_getitem_def
  str_nat.simps digit_char_def print_line_def crop_name_def

theorem face_counter_contiguous_from_one_witness:
  "face_counter (face_cropping mock_cropper mock_walk ''pairs'') = 3 \<and>
   map fst (written (face_cropping mock_cropper mock_walk ''pairs'')) = [''pairs/1.jpg'', ''pairs/2.jpg''] \<and>
   \<not> is_image_name ''notes.txt'' \<and>
   process_file mock_cropper ''pairs'' ''RawImages'' ''notes.txt''
     \<lparr>face_counter = 2, written = [(''pairs/1.jpg'', 11)], printed = [], uncaught = None\<rparr> =
     \<lparr>face_counter = 2, written = [(''pairs/1.jpg'', 11)], printed = [], uncaught = None\<rparr> \<and>
   is_image_name ''bad.jpg'' \<and>
   try_body mock_cropper ''pairs'' (os_path_join ''RawImages'' ''bad.jpg'')
     \<lparr>face_counter = 2, written = [(''pairs/1.jpg'', 11)], printed = [], uncaught = None\<rparr> =
     Inl (Exception ''cannot identify image file'') \<and>
   face_counter (process_file mock_cropper ''pairs'' ''RawImages'' ''bad.jpg''
     \<lparr>face_counter = 2, written = [(''pairs/1.jpg'', 11)], printed = [], uncaught = None\<rparr>) = 2 \<and>
   image_open mock_cropper (os_path_join ''RawImages'' ''empty.png'') = Inr ''RawImages/empty.png'' \<and>
   mtcnn_faces mock_cropper ''RawImages/empty.png'' = Inr None \<and>
   face_counter (process_file mock_cropper ''pairs'' ''RawImages'' ''empty.png''
     \<lparr>face_counter = 2, written = [(''pairs/1.jpg'', 11)], printed = [], uncaught = None\<rparr>) = 2"
proof -
  let ?st = "\<lparr>face_counter = 2, written = [(''pairs/1.jpg'', 11 :: nat)], printed = [], uncaught = None\<rparr>"
  note run = face_counter_contiguous_from_one
    [where env = mock_cropper and walk = mock_walk and out = "''pairs''" and st = ?st
       and r = "''RawImages''"]
  have w: "written (face_cropping mock_cropper mock_walk ''pairs'') =
             [(''pairs/1.jpg'', 11), (''pairs/2.jpg'', 20)]"
    by (simp add: cropping_eval)
  have a: "\<not> is_image_name ''notes.txt''"
    by (simp add: cropping_eval)
  have b: "is_image_name ''bad.jpg'' \<and>
     try_body mock_cropper ''pairs'' (os_path_join ''RawImages'' ''bad.jpg'') ?st =
       Inl (Exception ''cannot identify image file'')"
    by (simp add: cropping_eval)
  have c: "image_open mock_cropper (os_path_join ''RawImages'' ''empty.png'') = Inr ''RawImages/empty.png'' \<and>
     (mtcnn_faces mock_cropper ''RawImages/empty.png'' = Inr None \<or>
      mtcnn_faces mock_cropper ''RawImages/empty.png'' = Inr (Some []) \<or>
      mtcnn_detect mock_cropper ''RawImages/empty.png'' = Inr None)"
    by (simp add: cropping_eval)
  from run [where fname = "''notes.txt''"] w
  have 1: "face_counter (face_cropping mock_cropper mock_walk ''pairs'') = 3"
    and 2: "map fst (written (face_cropping mock_cropper mock_walk ''pairs'')) =
      [''pairs/1.jpg'', ''pairs/2.jpg'']"
    by simp_all
  from run [where fname = "''notes.txt''"] a
  have 3: "process_file mock_cropper ''pairs'' ''RawImages'' ''notes.txt'' ?st = ?st"
    by blast
  from run [where fname = "''bad.jpg''" and e = "''cannot identify image file''"] b
  have 4: "face_counter (process_file mock_cropper ''pairs'' ''RawImages'' ''bad.jpg'' ?st) = 2"
    by simp
  from run [where fname = "''empty.png''" and img = "''RawImages/empty.png''"] c
  have 5: "face_counter (process_file mock_cropper ''pairs'' ''RawImages'' ''empty.png'' ?st) = 2"
    by simp
  have 6: "mtcnn_faces mock_cropper ''RawImages/empty.png'' = Inr None"
    by (simp add: cropping_eval)
  from 1 2 3 4 5 6 a b c show ?thesis
    by blast
qed

subsection \<open>The largest face\<close>





subsection \<open>A failing file and the scan\<close>

lemma files_loop_ended: "uncaught st \<noteq> None \<Longrightarrow> files_loop env out r files st = st"
  by (cases files) simp_all

lemma walk_loop_ended: "uncaught st \<noteq> None \<Longrightarrow> walk_loop env out walk st = st"
  by (cases walk) auto

lemma files_loop_append:
  "files_loop env out r (xs @ ys) st = files_loop env out r ys (files_loop env out r xs st)"
  by (induction xs arbitrary: st) (simp_all add: files_loop_ended)

lemma walk_loop_append:
  "walk_loop env out (ws @ vs) st = walk_loop env out vs (walk_loop env out ws st)"
  by (induction ws arbitrary: st) (auto simp: walk_loop_ended)

lemma prefix_process_file: "prefix (written st) (written (process_file env out r fname st))"
  using process_file_step [of env out r fname st] by auto

lemma prefix_files_loop: "prefix (written st) (written (files_loop env out r files st))"
proof (induction files arbitrary: st)
  case Nil
  then show ?case by simp
next
  case (Cons f files)
  show ?case
  proof (cases "uncaught st = None")
    case False
    then show ?thesis by simp
  next
    case True
    have "prefix (written st) (written (process_file env out r f st))"
      by (rule prefix_process_file)
    also have "prefix \<dots> (written (files_loop env out r files (process_file env out r f st)))"
      by (rule Cons.IH)
    finally show ?thesis using True by simp
  qed
qed

lemma prefix_walk_loop: "prefix (written st) (written (walk_loop env out walk st))"
proof (induction walk arbitrary: st)
  case Nil
  then show ?case by simp
next
  case (Cons w walk)
  obtain r dirs files where w: "w = (r, dirs, files)"
    by (cases w) auto
  show ?case
  proof (cases "uncaught st = None")
    case False
    then show ?thesis by (simp add: w)
  next
    case True
    have "prefix (written st) (written (files_loop env out r files st))"
      by (rule prefix_files_loop)
    also have "prefix \<dots> (written (walk_loop env out walk (files_loop env out r files st)))"
      by (rule Cons.IH)
    finally show ?thesis using True by (simp add: w)
  qed
qed

lemma try_body_raises:
  assumes "image_open env p = Inl ex \<or>
           (\<exists>img. image_open env p = Inr img \<and> mtcnn_faces env img = Inl ex) \<or>
           (\<exists>img faces. image_open env p = Inr img \<and> mtcnn_faces env img = Inr (Some faces) \<and>
              faces \<noteq> [] \<and> mtcnn_detect env img = Inl ex)"
  shows "try_body env out p st = Inl ex"
  using assms by (auto simp: try_body_def)

text \<open>
  C7. Let an image file be reached by the scan, and let opening it, extracting its faces or
  detecting its boxes raise. The exception is caught. When the handler's \<open>print\<close> succeeds,
  one line is printed for that file and the walk goes on: the run equals the rest of the walk
  (the remaining files of the directory, then the remaining directories) started from the
  state before the failure plus that line, and the crops saved before stay a prefix of the
  crops saved at the end. When the handler's \<open>print\<close> raises, that exception is uncaught and
  the script ends there: the run is the state before the failure, and no later file is
  processed.
\<close>

theorem failing_file_scan_goes_on_unless_print_raises:
  assumes "is_image_name fname"
    and "before = files_loop env out r pre
           (walk_loop env out ws \<lparr>face_counter = 1, written = [], printed = [], uncaught = None\<rparr>)"
    and "uncaught before = None"
    and "image_open env (os_path_join r fname) = Inl (Exception e) \<or>
         (\<exists>img. image_open env (os_path_join r fname) = Inr img \<and>
                mtcnn_faces env img = Inl (Exception e)) \<or>
         (\<exists>img faces. image_open env (os_path_join r fname) = Inr img \<and>
                mtcnn_faces env img = Inr (Some faces) \<and> faces \<noteq> [] \<and>
                mtcnn_detect env img = Inl (Exception e))"
  shows "(stdout_write env ('' Could not process '' @ os_path_join r fname @ '': '' @ e) = None \<longrightarrow>
            face_cropping env (ws @ (r, dirs, pre @ fname # post) # vs) out =
              walk_loop env out vs
                (files_loop env out r post
                   (before\<lparr>printed := printed before @
                      ['' Could not process '' @ os_path_join r fname @ '': '' @ e]\<rparr>)) \<and>
            prefix (written before)
              (written (face_cropping env (ws @ (r, dirs, pre @ fname # post) # vs) out))) \<and>
         (stdout_write env ('' Could not process '' @ os_path_join r fname @ '': '' @ e) = Some ex \<longrightarrow>
            face_cropping env (ws @ (r, dirs, pre @ fname # post) # vs) out =
              before\<lparr>uncaught := Some ex\<rparr>)"
proof -
  let ?msg = "'' Could not process '' @ os_path_join r fname @ '': '' @ e"
  let ?s1 = "walk_loop env out ws \<lparr>face_counter = 1, written = [], printed = [], uncaught = None\<rparr>"
  have s1: "uncaught ?s1 = None"
  proof (rule ccontr)
    assume "uncaught ?s1 \<noteq> None"
    then have "files_loop env out r pre ?s1 = ?s1" "uncaught ?s1 \<noteq> None"
      by (simp_all add: files_loop_ended)
    with assms(2,3) show False by simp
  qed
  have raise: "try_body env out (os_path_join r fname) before = Inl (Exception e)"
    by (rule try_body_raises [OF assms(4)])
  have run: "face_cropping env (ws @ (r, dirs, pre @ fname # post) # vs) out =
               walk_loop env out vs (files_loop env out r post (process_file env out r fname before))"
    using s1 assms(2,3)
    by (simp add: face_cropping_def walk_loop_append files_loop_append)
  show ?thesis
  proof (intro conjI impI)
    assume ok: "stdout_write env ?msg = None"
    let ?after = "before\<lparr>printed := printed before @ [?msg]\<rparr>"
    from ok have step: "process_file env out r fname before = ?after"
      by (simp add: process_file_on_raise [OF assms(1) raise])
    with run show goes_on: "face_cropping env (ws @ (r, dirs, pre @ fname # post) # vs) out =
        walk_loop env out vs (files_loop env out r post ?after)"
      by simp
    have "prefix (written ?after) (written (files_loop env out r post ?after))"
      by (rule prefix_files_loop)
    also have "prefix \<dots> (written (walk_loop env out vs (files_loop env out r post ?after)))"
      by (rule prefix_walk_loop)
    finally have "prefix (written before)
        (written (walk_loop env out vs (files_loop env out r post ?after)))"
      by simp
    with goes_on show "prefix (written before)
        (written (face_cropping env (ws @ (r, dirs, pre @ fname # post) # vs) out))"
      by simp
  next
    assume bad: "stdout_write env ?msg = Some ex"
    let ?ended = "before\<lparr>uncaught := Some ex\<rparr>"
    from bad have step: "process_file env out r fname before = ?ended"
      by (simp add: process_file_on_raise [OF assms(1) raise])
    have "walk_loop env out vs (files_loop env out r post ?ended) = ?ended"
      by (simp add: files_loop_ended walk_loop_ended)
    with run step show "face_cropping env (ws @ (r, dirs, pre @ fname # post) # vs) out = ?ended"
      by simp
  qed
qed

theorem failing_file_scan_goes_on_unless_print_raises_witness:
  "is_image_name ''bad.jpg'' \<and>
   image_open mock_cropper (os_path_join ''RawImages'' ''bad.jpg'') =
     Inl (Exception ''cannot identify image file'') \<and>
   face_cropping mock_cropper
     ([] @ (''RawImages'', [], [''group.jpg'', ''notes.txt''] @ ''bad.jpg'' # [''empty.png'', ''solo.JPG'']) # [])
     ''pairs'' =
     \<lparr>face_counter = 3, written = [(''pairs/1.jpg'', 11), (''pairs/2.jpg'', 20)],
      printed = ['' Could not process RawImages/bad.jpg: cannot identify image file'',
                 '' No face detected in RawImages/empty.png''],
      uncaught = None\<rparr> \<and>
   mtcnn_faces mock_cropper ''RawImages/huge.jpg'' = Inl (Exception ''out of memory'') \<and>
   face_cropping mock_cropper
     ([] @ (''RawImages'', [], [''group.jpg''] @ ''huge.jpg'' # [''solo.JPG'']) # []) ''pairs'' =
     \<lparr>face_counter = 3, written = [(''pairs/1.jpg'', 11), (''pairs/2.jpg'', 20)],
      printed = ['' Could not process RawImages/huge.jpg: out of memory''],
      uncaught = None\<rparr> \<and>
   mtcnn_detect mock_cropper ''RawImages/odd.jpg'' = Inl (Exception ''invalid box'') \<and>
   face_cropping mock_cropper
     ([] @ (''RawImages'', [], [''group.jpg''] @ ''odd.jpg'' # [''solo.JPG'']) # []) ''pairs'' =
     \<lparr>face_counter = 3, written = [(''pairs/1.jpg'', 11), (''pairs/2.jpg'', 20)],
      printed = ['' Could not process RawImages/odd.jpg: invalid box''],
      uncaught = None\<rparr> \<and>
   image_open mock_cropper (os_path_join ''RawImages'' (''caf'' @ [CHR 0xE9] @ ''.jpg'')) =
     Inl (Exception ''cannot identify image file'') \<and>
   stdout_write mock_cropper
     ('' Could not process '' @ os_path_join ''RawImages'' (''caf'' @ [CHR 0xE9] @ ''.jpg'') @ '': '' @
      ''cannot identify image file'') =
     Some (Exception ''charmap codec cannot encode character'') \<and>
   face_cropping mock_cropper
     ([] @ (''RawImages'', [], [''group.jpg''] @ (''caf'' @ [CHR 0xE9] @ ''.jpg'') # [''solo.JPG'']) # [])
     ''pairs'' =
     \<lparr>face_counter = 2, written = [(''pairs/1.jpg'', 11)], printed = [],
      uncaught = Some (Exception ''charmap codec cannot encode character'')\<rparr>"
proof -
  let ?init = "\<lparr>face_counter = 1, written = [] :: (string \<times> nat) list, printed = [], uncaught = None\<rparr>"
  let ?one = "\<lparr>face_counter = 2, written = [(''pairs/1.jpg'', 11 :: nat)], printed = [], uncaught = None\<rparr>"
  let ?cafe = "''caf'' @ [CHR 0xE9] @ ''.jpg''"
  have names: "is_image_name ''bad.jpg''" "is_image_name ''huge.jpg''" "is_image_name ''odd.jpg''"
    "is_image_name ?cafe"
    by (simp_all add: cropping_eval)
  have before2: "?one = files_loop mock_cropper ''pairs'' ''RawImages'' [''group.jpg'', ''notes.txt'']
       (walk_loop mock_cropper ''pairs'' [] ?init)"
    by (simp add: cropping_eval)
  have before1: "?one = files_loop mock_cropper ''pairs'' ''RawImages'' [''group.jpg'']
       (walk_loop mock_cropper ''pairs'' [] ?init)"
    by (simp add: cropping_eval)
  have reached: "uncaught ?one = None"
    by simp
  have open_bad: "image_open mock_cropper (os_path_join ''RawImages'' ''bad.jpg'') =
      Inl (Exception ''cannot identify image file'')"
    by (simp add: cropping_eval)
  have faces_huge: "image_open mock_cropper (os_path_join ''RawImages'' ''huge.jpg'') = Inr ''RawImages/huge.jpg''"
    "mtcnn_faces mock_cropper ''RawImages/huge.jpg'' = Inl (Exception ''out of memory'')"
    by (simp_all add: cropping_eval)
  have detect_odd: "image_open mock_cropper (os_path_join ''RawImages'' ''odd.jpg'') = Inr ''RawImages/odd.jpg''"
    "mtcnn_faces mock_cropper ''RawImages/odd.jpg'' = Inr (Some [20])"
    "mtcnn_detect mock_cropper ''RawImages/odd.jpg'' = Inl (Exception ''invalid box'')"
    by (simp_all add: cropping_eval)
  have open_cafe: "image_open mock_cropper (os_path_join ''RawImages'' ?cafe) =
      Inl (Exception ''cannot identify image file'')"
    by (simp add: cropping_eval)
  have print_bad: "stdout_write mock_cropper
      ('' Could not process '' @ os_path_join ''RawImages'' ''bad.jpg'' @ '': '' @
       ''cannot identify image file'') = None"
    by (simp add: cropping_eval)
  have print_huge: "stdout_write mock_cropper
      ('' Could not process '' @ os_path_join ''RawImages'' ''huge.jpg'' @ '': '' @ ''out of memory'') = None"
    by (simp add: cropping_eval)
  have print_odd: "stdout_write mock_cropper
      ('' Could not process '' @ os_path_join ''RawImages'' ''odd.jpg'' @ '': '' @ ''invalid box'') = None"
    by (simp add: cropping_eval)
  have print_cafe: "stdout_write mock_cropper
      ('' Could not process '' @ os_path_join ''RawImages'' ?cafe @ '': '' @ ''cannot identify image file'') =
      Some (Exception ''charmap codec cannot encode character'')"
    by (simp add: cropping_eval)
  have rest_bad: "walk_loop mock_cropper ''pairs'' []
      (files_loop mock_cropper ''pairs'' ''RawImages'' [''empty.png'', ''solo.JPG'']
         (?one\<lparr>printed := printed ?one @
            ['' Could not process '' @ os_path_join ''RawImages'' ''bad.jpg'' @ '': '' @
             ''cannot identify image file'']\<rparr>)) =
     \<lparr>face_counter = 3, written = [(''pairs/1.jpg'', 11), (''pairs/2.jpg'', 20)],
      printed = ['' Could not process RawImages/bad.jpg: cannot identify image file'',
                 '' No face detected in RawImages/empty.png''],
      uncaught = None\<rparr>"
    by (simp add: cropping_eval)
  have rest_huge: "walk_loop mock_cropper ''pairs'' []
      (files_loop mock_cropper ''pairs'' ''RawImages'' [''solo.JPG'']
         (?one\<lparr>printed := printed ?one @
            ['' Could not process '' @ os_path_join ''RawImages'' ''huge.jpg'' @ '': '' @
             ''out of memory'']\<rparr>)) =
     \<lparr>face_counter = 3, written = [(''pairs/1.jpg'', 11), (''pairs/2.jpg'', 20)],
      printed = ['' Could not process RawImages/huge.jpg: out of memory''],
      uncaught = None\<rparr>"
    by (simp add: cropping_eval)
  have rest_odd: "walk_loop mock_cropper ''pairs'' []
      (files_loop mock_cropper ''pairs'' ''RawImages'' [''solo.JPG'']
         (?one\<lparr>printed := printed ?one @
            ['' Could not process '' @ os_path_join ''RawImages'' ''odd.jpg'' @ '': '' @
             ''invalid box'']\<rparr>)) =
     \<lparr>face_counter = 3, written = [(''pairs/1.jpg'', 11), (''pairs/2.jpg'', 20)],
      printed = ['' Could not process RawImages/odd.jpg: invalid box''],
      uncaught = None\<rparr>"
    by (simp add: cropping_eval)
  have ended: "?one\<lparr>uncaught := Some (Exception ''charmap codec cannot encode character'')\<rparr> =
     \<lparr>face_counter = 2, written = [(''pairs/1.jpg'', 11)], printed = [],
      uncaught = Some (Exception ''charmap codec cannot encode character'')\<rparr>"
    by simp
  have c_bad: "image_open mock_cropper (os_path_join ''RawImages'' ''bad.jpg'') =
        Inl (Exception ''cannot identify image file'') \<or>
      (\<exists>img. image_open mock_cropper (os_path_join ''RawImages'' ''bad.jpg'') = Inr img \<and>
             mtcnn_faces mock_cropper img = Inl (Exception ''cannot identify image file'')) \<or>
      (\<exists>img faces. image_open mock_cropper (os_path_join ''RawImages'' ''bad.jpg'') = Inr img \<and>
             mtcnn_faces mock_cropper img = Inr (Some faces) \<and> faces \<noteq> [] \<and>
             mtcnn_detect mock_cropper img = Inl (Exception ''cannot identify image file''))"
    using open_bad by (rule disjI1)
  have c_huge: "image_open mock_cropper (os_path_join ''RawImages'' ''huge.jpg'') =
        Inl (Exception ''out of memory'') \<or>
      (\<exists>img. image_open mock_cropper (os_path_join ''RawImages'' ''huge.jpg'') = Inr img \<and>
             mtcnn_faces mock_cropper img = Inl (Exception ''out of memory'')) \<or>
      (\<exists>img faces. image_open mock_cropper (os_path_join ''RawImages'' ''huge.jpg'') = Inr img \<and>
             mtcnn_faces mock_cropper img = Inr (Some faces) \<and> faces \<noteq> [] \<and>
             mtcnn_detect mock_cropper img = Inl (Exception ''out of memory''))"
    using faces_huge by blast
  have c_odd: "image_open mock_cropper (os_path_join ''RawImages'' ''odd.jpg'') =
        Inl (Exception ''invalid box'') \<or>
      (\<exists>img. image_open mock_cropper (os_path_join ''RawImages'' ''odd.jpg'') = Inr img \<and>
             mtcnn_faces mock_cropper img = Inl (Exception ''invalid box'')) \<or>
      (\<exists>img faces. image_open mock_cropper (os_path_join ''RawImages'' ''odd.jpg'') = Inr img \<and>
             mtcnn_faces mock_cropper img = Inr (Some faces) \<and> faces \<noteq> [] \<and>
             mtcnn_detect mock_cropper img = Inl (Exception ''invalid box''))"
    using detect_odd by blast
  have c_cafe: "image_open mock_cropper (os_path_join ''RawImages'' ?cafe) =
        Inl (Exception ''cannot identify image file'') \<or>
      (\<exists>img. image_open mock_cropper (os_path_join ''RawImages'' ?cafe) = Inr img \<and>
             mtcnn_faces mock_cropper img = Inl (Exception ''cannot identify image file'')) \<or>
      (\<exists>img faces. image_open mock_cropper (os_path_join ''RawImages'' ?cafe) = Inr img \<and>
             mtcnn_faces mock_cropper img = Inr (Some faces) \<and> faces \<noteq> [] \<and>
             mtcnn_detect mock_cropper img = Inl (Exception ''cannot identify image file''))"
    using open_cafe by (rule disjI1)
  note t_bad = failing_file_scan_goes_on_unless_print_raises
    [where dirs = "[]" and post = "[''empty.png'', ''solo.JPG'']" and vs = "[]",
     OF names(1) before2 reached c_bad,
     THEN conjunct1, THEN mp, OF print_bad, THEN conjunct1, unfolded rest_bad]
  note t_huge = failing_file_scan_goes_on_unless_print_raises
    [where dirs = "[]" and post = "[''solo.JPG'']" and vs = "[]",
     OF names(2) before1 reached c_huge,
     THEN conjunct1, THEN mp, OF print_huge, THEN conjunct1, unfolded rest_huge]
  note t_odd = failing_file_scan_goes_on_unless_print_raises
    [where dirs = "[]" and post = "[''solo.JPG'']" and vs = "[]",
     OF names(3) before1 reached c_odd,
     THEN conjunct1, THEN mp, OF print_odd, THEN conjunct1, unfolded rest_odd]
  note t_cafe = failing_file_scan_goes_on_unless_print_raises
    [where dirs = "[]" and post = "[''solo.JPG'']" and vs = "[]",
     OF names(4) before1 reached c_cafe,
     THEN conjunct2, THEN mp, OF print_cafe, unfolded ended]
  show ?thesis
    by (intro conjI names(1) open_bad t_bad faces_huge(2) t_huge detect_odd(3) t_odd
        open_cafe print_cafe t_cafe)
qed

section \<open>Properties of the crop scan\<close>

lemma saved_faces_loop_run:
  assumes "\<forall>j. i \<le> j \<and> j \<le> k \<longrightarrow> exists (numbered_crop path_div out j)"
    and "\<not> exists (numbered_crop path_div out (Suc k))"
    and "i \<le> Suc k"
  shows "saved_faces_loop exists path_div out i acc =
           Some (acc @ map (numbered_crop path_div out) [i ..< Suc k])"
  using assms
proof (induction "Suc k - i" arbitrary: i acc)
  case 0
  then have "i = Suc k" by simp
  with "0.prems"(2) show ?case
    by (subst saved_faces_loop.simps) (simp add: numbered_crop_def)
next
  case (Suc n)
  then have i: "i \<le> k" by simp
  with Suc.prems(1) have ex: "exists (numbered_crop path_div out i)" by simp
  have "saved_faces_loop exists path_div out (i + 1) (acc @ [numbered_crop path_div out i]) =
          Some ((acc @ [numbered_crop path_div out i]) @ map (numbered_crop path_div out) [i + 1 ..< Suc k])"
    using Suc.hyps(2) Suc.prems i by (intro Suc.hyps(1)) simp_all
  moreover have "[i ..< Suc k] = i # [i + 1 ..< Suc k]"
    using i by (simp add: upt_conv_Cons)
  ultimately show ?case
    using ex by (subst saved_faces_loop.simps) (simp add: numbered_crop_def)
qed

text \<open>
  C10 (as amended). When the cropping child process exits with return code 0 and the numbered
  paths \<open>1.jpg, ..., k.jpg\<close> exist while \<open>(k+1).jpg\<close> does not, \<open>crop_faces_from_directory\<close>
  returns exactly the list of those \<open>k\<close> paths in order, whatever numbered paths exist beyond
  the gap; if \<open>1.jpg\<close> does not exist it returns the empty list. When the child exits with a
  non-zero return code it returns the empty list without scanning.
\<close>

theorem crop_faces_contiguous_run_on_zero_exit:
  "(run_cropping input_dir output_dir = (0, err, exists) \<and>
    (\<forall>j \<in> {1 .. k}. exists (numbered_crop path_div output_dir j)) \<and>
    \<not> exists (numbered_crop path_div output_dir (k + 1)) \<longrightarrow>
      crop_faces_from_directory run_cropping path_div input_dir output_dir =
        Some (map (numbered_crop path_div output_dir) [1 ..< k + 1])) \<and>
   (run_cropping input_dir output_dir = (0, err, exists) \<and>
    \<not> exists (numbered_crop path_div output_dir 1) \<longrightarrow>
      crop_faces_from_directory run_cropping path_div input_dir output_dir = Some []) \<and>
   (run_cropping input_dir output_dir = (returncode, err, exists) \<and> returncode \<noteq> 0 \<longrightarrow>
      crop_faces_from_directory run_cropping path_div input_dir output_dir = Some [])"
proof (intro conjI impI)
  assume h: "run_cropping input_dir output_dir = (0, err, exists) \<and>
    (\<forall>j \<in> {1 .. k}. exists (numbered_crop path_div output_dir j)) \<and>
    \<not> exists (numbered_crop path_div output_dir (k + 1))"
  then have "saved_faces_loop exists path_div output_dir 1 [] =
      Some ([] @ map (numbered_crop path_div output_dir) [1 ..< Suc k])"
    by (intro saved_faces_loop_run) simp_all
  with h show "crop_faces_from_directory run_cropping path_div input_dir output_dir =
        Some (map (numbered_crop path_div output_dir) [1 ..< k + 1])"
    by (simp add: crop_faces_from_directory_def)
next
  assume h: "run_cropping input_dir output_dir = (0, err, exists) \<and>
    \<not> exists (numbered_crop path_div output_dir 1)"
  then have "saved_faces_loop exists path_div output_dir 1 [] = Some []"
    by (subst saved_faces_loop.simps) (simp add: numbered_crop_def)
  with h show "crop_faces_from_directory run_cropping path_div input_dir output_dir = Some []"
    by (simp add: crop_faces_from_directory_def)
next
  assume "run_cropping input_dir output_dir = (returncode, err, exists) \<and> returncode \<noteq> 0"
  then show "crop_faces_from_directory run_cropping path_div input_dir output_dir = Some []"
    by (simp add: crop_faces_from_directory_def)
qed

text \<open>The definitions unfolded to run the scan on the mocked child process.\<close>

lemmas scan_eval =
  crop_faces_from_directory_def mock_run_cropping_def mock_killed_cropping_def mock_path_div_def
  numbered_crop_def str_nat.simps digit_char_def

theorem crop_faces_contiguous_run_on_zero_exit_witness:
  "mock_run_cropping ''RawImages'' ''pairs'' = (0, [], snd (snd (mock_run_cropping ''RawImages'' ''pairs''))) \<and>
   snd (snd (mock_run_cropping ''RawImages'' ''pairs'')) ''pairs/1.jpg'' \<and>
   snd (snd (mock_run_cropping ''RawImages'' ''pairs'')) ''pairs/3.jpg'' \<and>
   \<not> snd (snd (mock_run_cropping ''RawImages'' ''pairs'')) ''pairs/4.jpg'' \<and>
   snd (snd (mock_run_cropping ''RawImages'' ''pairs'')) ''pairs/5.jpg'' \<and>
   crop_faces_from_directory mock_run_cropping mock_path_div ''RawImages'' ''pairs'' =
     Some [''pairs/1.jpg'', ''pairs/2.jpg'', ''pairs/3.jpg''] \<and>
   fst (mock_killed_cropping ''RawImages'' ''pairs'') \<noteq> 0 \<and>
   crop_faces_from_directory mock_killed_cropping mock_path_div ''RawImages'' ''pairs'' = Some []"
proof -
  let ?ex = "snd (snd (mock_run_cropping ''RawImages'' ''pairs''))"
  let ?kex = "snd (snd (mock_killed_cropping ''RawImages'' ''pairs''))"
  have r: "mock_run_cropping ''RawImages'' ''pairs'' = (0, [], ?ex)"
    by (simp add: mock_run_cropping_def)
  have s: "{1 .. 3 :: nat} = {1, 2, 3}"
    by auto
  have e: "\<forall>j \<in> {1 .. 3}. ?ex (numbered_crop mock_path_div ''pairs'' j)"
    unfolding s by (simp add: scan_eval)
  have n: "\<not> ?ex (numbered_crop mock_path_div ''pairs'' (3 + 1))"
    by (simp add: scan_eval)
  have l: "map (numbered_crop mock_path_div ''pairs'') [1 ..< 3 + 1] =
      [''pairs/1.jpg'', ''pairs/2.jpg'', ''pairs/3.jpg'']"
    by (simp add: scan_eval upt_conv_Cons)
  have k: "mock_killed_cropping ''RawImages'' ''pairs'' = (- 9, [], ?kex) \<and> (- 9 :: int) \<noteq> 0"
    by (simp add: mock_killed_cropping_def)
  note t = crop_faces_contiguous_run_on_zero_exit
         [where run_cropping = mock_run_cropping and exists = ?ex and k = 3
            and path_div = mock_path_div and input_dir = "''RawImages''" and output_dir = "''pairs''"
            and err = "[]"]
  have "crop_faces_from_directory mock_run_cropping mock_path_div ''RawImages'' ''pairs'' =
     Some (map (numbered_crop mock_path_div ''pairs'') [1 ..< 3 + 1])"
    by (rule t [THEN conjunct1, THEN mp]) (intro conjI r e n)
  then have 1: "crop_faces_from_directory mock_run_cropping mock_path_div ''RawImages'' ''pairs'' =
     Some [''pairs/1.jpg'', ''pairs/2.jpg'', ''pairs/3.jpg'']"
    by (simp only: l)
  note tk = crop_faces_contiguous_run_on_zero_exit
         [where run_cropping = mock_killed_cropping and exists = ?kex and returncode = "- 9"
            and path_div = mock_path_div and input_dir = "''RawImages''" and output_dir = "''pairs''"
            and err = "[]"]
  have 2: "crop_faces_from_directory mock_killed_cropping mock_path_div ''RawImages'' ''pairs'' = Some []"
    by (rule tk [THEN conjunct2, THEN conjunct2, THEN mp]) (rule k)
  have 3: "?ex ''pairs/1.jpg''" "?ex ''pairs/3.jpg''" "\<not> ?ex ''pairs/4.jpg''" "?ex ''pairs/5.jpg''"
    by (simp_all add: mock_run_cropping_def)
  have 4: "fst (mock_killed_cropping ''RawImages'' ''pairs'') \<noteq> 0"
    by (simp add: mock_killed_cropping_def)
  show ?thesis
    by (intro conjI r 1 2 3 4)
qed

text \<open>
  C10 as stated fails when the child exits with a non-zero code: here \<open>1.jpg\<close> exists and
  \<open>2.jpg\<close> does not, yet the returned list is not \<open>[1.jpg]\<close>.
\<close>

theorem crop_faces_nonzero_exit_counterexample:
  "snd (snd (mock_killed_cropping ''RawImages'' ''pairs'')) (numbered_crop mock_path_div ''pairs'' 1) \<and>
   \<not> snd (snd (mock_killed_cropping ''RawImages'' ''pairs'')) (numbered_crop mock_path_div ''pairs'' 2) \<and>
   crop_faces_from_directory mock_killed_cropping mock_path_div ''RawImages'' ''pairs'' \<noteq>
     Some [numbered_crop mock_path_div ''pairs'' 1]"
  by (simp add: scan_eval)

section \<open>Properties of the report\<close>

lemma results_loop_closed:
  "results_loop path_name fmt4 results (f, same_count) =
     (f @ concat (map (report_line path_name fmt4) results),
      same_count + int (length (filter is_same results)))"
  by (induction results arbitrary: f same_count) (auto simp: is_same_def)

lemma str_int_of_nat: "str_int (int n) = str_nat n"
  by (simp add: str_int_def)

lemma str_int_diff: "m \<le> n \<Longrightarrow> str_int (int n - int m) = str_nat (n - m)"
  by (simp add: str_int_def nat_diff_distrib')

lemma filter_count_split:
  "length xs - length (filter P xs) = length (filter (\<lambda>x. \<not> P x) xs)"
  using sum_length_filter_compl [of P xs] by simp

lemma write_results_closed:
  "write_results path_name fmt4 results =
     ''=== Face Recognition Results ===\<newline>\<newline>'' @
     concat (map (report_line path_name fmt4) results) @
     ''\<newline>=== Summary ===\<newline>'' @
     ''Total comparisons: '' @ str_nat (length results) @ ''\<newline>'' @
     ''Same person: '' @ str_nat (length (filter is_same results)) @ ''\<newline>'' @
     ''Different persons: '' @ str_nat (length results - length (filter is_same results)) @ ''\<newline>''"
proof -
  have "str_int (int (length results) - int (length (filter is_same results))) =
          str_nat (length results - length (filter is_same results))"
    by (rule str_int_diff) simp
  then show ?thesis
    by (simp add: write_results_def results_loop_closed str_int_of_nat)
qed

text \<open>The definitions unfolded to run \<open>main\<close> on the mocked pipeline.\<close>

lemmas main_eval =
  main_def crop_faces_from_directory_def mock_run_cropping_def mock_path_div_def
  saved_faces_loop.simps str_nat.simps digit_char_def compare_all_pairs_def mock_cmp_def
  is_same_def report_line_def

text \<open>
  C3. The results file is the header, then one line per result in the order of the result
  list, each \<open>name_a vs name_b -> distance (SAME)\<close> or \<open>(DIFFERENT)\<close>, then the summary with
  the total, the number of results marked same, and the total minus that number, which is
  the number of results marked different. \<open>main\<close> saves a report exactly when the crop scan
  returns a non-empty list of faces and \<open>compare_all_pairs\<close> returns a non-empty result list
  for these faces and the threshold, and the report is then that of this result list. On
  three mocked crops with distances 0.5, 1.5 and
  2.0 and threshold 1.0, \<open>main\<close> writes three pair lines, the first SAME and the other two
  DIFFERENT, and the summary says \<open>Same person: 1\<close> and \<open>Different persons: 2\<close>.
\<close>

theorem report_header_lines_summary:
  "write_results path_name fmt4 results =
     ''=== Face Recognition Results ===\<newline>\<newline>'' @
     concat (map (report_line path_name fmt4) results) @
     ''\<newline>=== Summary ===\<newline>'' @
     ''Total comparisons: '' @ str_nat (length results) @ ''\<newline>'' @
     ''Same person: '' @ str_nat (length (filter is_same results)) @ ''\<newline>'' @
     ''Different persons: '' @ str_nat (length results - length (filter is_same results)) @ ''\<newline>'' \<and>
   length results - length (filter is_same results) = length (filter (\<lambda>r. \<not> is_same r) results) \<and>
   report_line path_name fmt4 (img1, img2, distance, True) =
     path_name img1 @ '' vs '' @ path_name img2 @ '' -> '' @ fmt4 distance @ '' (SAME)\<newline>'' \<and>
   report_line path_name fmt4 (img1, img2, distance, False) =
     path_name img1 @ '' vs '' @ path_name img2 @ '' -> '' @ fmt4 distance @ '' (DIFFERENT)\<newline>'' \<and>
   (main run_cropping path_div cmp path_name fmt4 input_dir output_dir threshold =
      Some (Inr (ResultsSaved report)) \<longleftrightarrow>
    (\<exists>faces rs.
       crop_faces_from_directory run_cropping path_div input_dir output_dir = Some faces \<and>
       faces \<noteq> [] \<and> compare_all_pairs cmp faces threshold = Inr rs \<and> rs \<noteq> [] \<and>
       report = write_results path_name fmt4 rs)) \<and>
   main mock_run_cropping mock_path_div mock_cmp path_name fmt4 ''RawImages'' ''pairs'' 1 =
     Some (Inr (ResultsSaved
       (''=== Face Recognition Results ===\<newline>\<newline>'' @
        path_name ''pairs/1.jpg'' @ '' vs '' @ path_name ''pairs/2.jpg'' @ '' -> '' @ fmt4 0.5 @ '' (SAME)\<newline>'' @
        path_name ''pairs/1.jpg'' @ '' vs '' @ path_name ''pairs/3.jpg'' @ '' -> '' @ fmt4 1.5 @ '' (DIFFERENT)\<newline>'' @
        path_name ''pairs/2.jpg'' @ '' vs '' @ path_name ''pairs/3.jpg'' @ '' -> '' @ fmt4 2.0 @ '' (DIFFERENT)\<newline>'' @
        ''\<newline>=== Summary ===\<newline>'' @
        ''Total comparisons: 3\<newline>'' @
        ''Same person: 1\<newline>'' @
        ''Different persons: 2\<newline>'')))"
proof (intro conjI)
  show "write_results path_name fmt4 results =
     ''=== Face Recognition Results ===\<newline>\<newline>'' @
     concat (map (report_line path_name fmt4) results) @
     ''\<newline>=== Summary ===\<newline>'' @
     ''Total comparisons: '' @ str_nat (length results) @ ''\<newline>'' @
     ''Same person: '' @ str_nat (length (filter is_same results)) @ ''\<newline>'' @
     ''Different persons: '' @ str_nat (length results - length (filter is_same results)) @ ''\<newline>''"
    by (rule write_results_closed)
  show "length results - length (filter is_same results) = length (filter (\<lambda>r. \<not> is_same r) results)"
    by (rule filter_count_split)
  show "report_line path_name fmt4 (img1, img2, distance, True) =
     path_name img1 @ '' vs '' @ path_name img2 @ '' -> '' @ fmt4 distance @ '' (SAME)\<newline>''"
    by (simp add: report_line_def)
  show "report_line path_name fmt4 (img1, img2, distance, False) =
     path_name img1 @ '' vs '' @ path_name img2 @ '' -> '' @ fmt4 distance @ '' (DIFFERENT)\<newline>''"
    by (simp add: report_line_def)
  show "main run_cropping path_div cmp path_name fmt4 input_dir output_dir threshold =
      Some (Inr (ResultsSaved report)) \<longleftrightarrow>
    (\<exists>faces rs.
       crop_faces_from_directory run_cropping path_div input_dir output_dir = Some faces \<and>
       faces \<noteq> [] \<and> compare_all_pairs cmp faces threshold = Inr rs \<and> rs \<noteq> [] \<and>
       report = write_results path_name fmt4 rs)"
    by (auto simp: main_def split: option.splits sum.splits if_splits)
  show "main mock_run_cropping mock_path_div mock_cmp path_name fmt4 ''RawImages'' ''pairs'' 1 =
     Some (Inr (ResultsSaved
       (''=== Face Recognition Results ===\<newline>\<newline>'' @
        path_name ''pairs/1.jpg'' @ '' vs '' @ path_name ''pairs/2.jpg'' @ '' -> '' @ fmt4 0.5 @ '' (SAME)\<newline>'' @
        path_name ''pairs/1.jpg'' @ '' vs '' @ path_name ''pairs/3.jpg'' @ '' -> '' @ fmt4 1.5 @ '' (DIFFERENT)\<newline>'' @
        path_name ''pairs/2.jpg'' @ '' vs '' @ path_name ''pairs/3.jpg'' @ '' -> '' @ fmt4 2.0 @ '' (DIFFERENT)\<newline>'' @
        ''\<newline>=== Summary ===\<newline>'' @
        ''Total comparisons: 3\<newline>'' @
        ''Same person: 1\<newline>'' @
        ''Different persons: 2\<newline>'')))"
    by (simp add: main_eval write_results_closed)
qed

section \<open>Properties of the endpoint\<close>

text \<open>The definitions unfolded to run the handler on the mocked server.\<close>

lemmas server_eval =
  compare_faces_endpoint_def compare_faces_handler_def clear_raw_images_def saved_filename_def format_optional_def
  json_response_def mock_server_env_def mock_server_state_def str_nat.simps digit_char_def
  py_strip_def is_space_def is_file_def mock_upload_first_def mock_upload_second_def




subsection \<open>Saved filenames\<close>

lemma below_ten: "d < 10 \<Longrightarrow> d \<in> {0, 1, 2, 3, 4, 5, 6, 7, 8, 9 :: nat}"
  by auto

lemma digit_char_less: "d < 10 \<Longrightarrow> digit_char d \<in> set ''0123456789''"
  using below_ten [of d] by (auto simp: digit_char_def)

lemma str_nat_digits: "set (str_nat n) \<subseteq> set ''0123456789''"
proof (induction n rule: str_nat.induct)
  case (1 n)
  show ?case
  proof (cases "n < 10")
    case True
    then show ?thesis
      using digit_char_less [of n] by (subst str_nat.simps) simp
  next
    case False
    have "digit_char (n mod 10) \<in> set ''0123456789''"
      by (rule digit_char_less) simp
    with False "1.IH" show ?thesis
      by (subst str_nat.simps) simp
  qed
qed

lemma digit_value_digit_char: "d < 10 \<Longrightarrow> digit_value (digit_char d) = d"
  using below_ten [of d] by (auto simp: digit_value_def digit_char_def)

lemma str_nat_decode: "foldl (\<lambda>acc c. 10 * acc + digit_value c) 0 (str_nat n) = n"
proof (induction n rule: str_nat.induct)
  case (1 n)
  show ?case
  proof (cases "n < 10")
    case True
    then show ?thesis
      by (subst str_nat.simps) (simp add: digit_value_digit_char)
  next
    case False
    with "1.IH" show ?thesis
      by (subst str_nat.simps) (simp add: digit_value_digit_char)
  qed
qed

lemma str_nat_inj: "str_nat m = str_nat n \<longleftrightarrow> m = n"
proof
  assume "str_nat m = str_nat n"
  then have "foldl (\<lambda>acc c. 10 * acc + digit_value c) 0 (str_nat m) =
             foldl (\<lambda>acc c. 10 * acc + digit_value c) 0 (str_nat n)"
    by (rule arg_cong)
  then show "m = n"
    by (simp only: str_nat_decode)
next
  assume "m = n"
  then show "str_nat m = str_nat n" by (rule arg_cong)
qed

lemma underscore_split:
  assumes "CHR ''_'' \<notin> set a" and "CHR ''_'' \<notin> set b"
  shows "a @ CHR ''_'' # x = b @ CHR ''_'' # y \<longleftrightarrow> a = b \<and> x = y"
proof
  assume eq: "a @ CHR ''_'' # x = b @ CHR ''_'' # y"
  have "takeWhile (\<lambda>c. c \<noteq> CHR ''_'') (a @ CHR ''_'' # x) = a"
    using assms(1) by (subst takeWhile_append2) auto
  moreover have "takeWhile (\<lambda>c. c \<noteq> CHR ''_'') (b @ CHR ''_'' # y) = b"
    using assms(2) by (subst takeWhile_append2) auto
  ultimately have "a = b" using eq by simp
  with eq show "a = b \<and> x = y" by simp
qed simp

lemma saved_filename_eq:
  "saved_filename env k u = saved_filename env k' u' \<longleftrightarrow>
     clock_ms env k = clock_ms env k' \<and>
     format_optional (filename u) = format_optional (filename u')"
proof -
  have "CHR ''_'' \<notin> set (str_nat n)" for n
    using str_nat_digits [of n] by auto
  then show ?thesis
    by (simp add: saved_filename_def underscore_split str_nat_inj)
qed

text \<open>
  C9. The saved name determines the millisecond read and the upload's filename, so two
  uploads get the same saved name exactly when both coincide. The claim that the saved names
  of a request are pairwise distinct fails on the code: two uploads named \<open>face.jpg\<close> saved
  within the same millisecond get the same name, and the second overwrites the first, so one
  file is staged for the pipeline.
\<close>

theorem same_name_same_millisecond_overwrites:
  "(saved_filename env k u = saved_filename env k' u' \<longleftrightarrow>
      clock_ms env k = clock_ms env k' \<and>
      format_optional (filename u) = format_optional (filename u')) \<and>
   map (\<lambda>(k, u). saved_filename mock_server_env k u) (zip [0 ..< 2] [mock_upload_first, mock_upload_second]) =
     [''1700000000000_face.jpg'', ''1700000000000_face.jpg''] \<and>
   \<not> distinct (map (\<lambda>(k, u). saved_filename mock_server_env k u)
                 (zip [0 ..< 2] [mock_upload_first, mock_upload_second])) \<and>
   raw_dir (snd (compare_faces_endpoint mock_server_env [mock_upload_first, mock_upload_second] 1
     mock_server_state)) = Some [(''1700000000000_face.jpg'', RegularFile ''second'')]"
proof (intro conjI)
  show "saved_filename env k u = saved_filename env k' u' \<longleftrightarrow>
      clock_ms env k = clock_ms env k' \<and>
      format_optional (filename u) = format_optional (filename u')"
    by (rule saved_filename_eq)
  show "map (\<lambda>(k, u). saved_filename mock_server_env k u) (zip [0 ..< 2] [mock_upload_first, mock_upload_second]) =
     [''1700000000000_face.jpg'', ''1700000000000_face.jpg'']"
    by (simp add: server_eval upt_conv_Cons)
  then show "\<not> distinct (map (\<lambda>(k, u). saved_filename mock_server_env k u)
                 (zip [0 ..< 2] [mock_upload_first, mock_upload_second]))"
    by (simp only: distinct.simps list.set) simp
  show "raw_dir (snd (compare_faces_endpoint mock_server_env [mock_upload_first, mock_upload_second] 1
     mock_server_state)) = Some [(''1700000000000_face.jpg'', RegularFile ''second'')]"
    by (simp add: server_eval)
qed

end
